theory Spec2Isabelle
  imports Main "HOL-Library.Char_ord" "HOL-Library.List_Lexorder"
begin

section \<open>The entity store\<close>

text \<open>
  The route handlers of \<^verbatim>\<open>backend/src/routes\<close> talk to a relational store through the
  supabase client. The store is modelled as one list of rows per table, in insertion
  order. Column types follow the interfaces of \<^verbatim>\<open>lib/supabase\<close>: a column of type
  \<^verbatim>\<open>string | null\<close> is a \<open>string option\<close>. Timestamps are time values in milliseconds
  since the epoch. The values a table generates on insert (primary key, \<^verbatim>\<open>createdAt\<close>)
  are arguments of the handler that inserts; \<^verbatim>\<open>updatedAt\<close> is written by no handler and
  is left out.
\<close>

type_synonym timestamp = int

record event_row =
  eventID :: string
  eventName :: string
  tickerSymbol :: "string option"
  gicsSector :: "string option"
  gicsSubSector :: "string option"
  eventType :: string
  location :: "string option"
  hostCompany :: "string option"
  companyID :: "string option"
  startDate :: timestamp
  endDate :: "timestamp option"
  description :: "string option"

record rsvp_row =
  rsvpID :: string
  rsvp_userID :: string
  rsvp_eventID :: string
  rsvp_status :: string
  rsvp_createdAt :: timestamp

record subscription_row =
  subID :: string
  subStart :: timestamp
  subEnd :: "timestamp option"
  sub_userID :: string
  sub_gicsSector :: "string option"
  sub_gicsSubCategory :: "string option"
  sub_status :: string
  sub_createdAt :: timestamp

record company_row =
  co_companyID :: string
  co_tickerSymbol :: string
  companyName :: string
  co_gicsSector :: string
  co_gicsSubCategory :: string

record store =
  events :: "event_row list"
  rsvps :: "rsvp_row list"
  subscriptions :: "subscription_row list"
  gics_companies :: "company_row list"

text \<open>
  \<^verbatim>\<open>.single()\<close> answers \<^verbatim>\<open>{data: row, error: null}\<close> when the query selects exactly one
  row and \<^verbatim>\<open>{data: null, error}\<close> when it selects none or several: \<open>Some row\<close> and
  \<open>None\<close>.
\<close>

fun single :: "'a list \<Rightarrow> 'a option" where
  "single [r] = Some r"
| "single rs = None"

text \<open>
  A handler answers with a status code and a JSON body (\<open>Reply\<close>), or with a status
  code and an \<^verbatim>\<open>error\<close> message (\<open>Fail\<close>).
\<close>

datatype 'a response = Reply nat 'a | Fail nat string

fun status_code :: "'a response \<Rightarrow> nat" where
  "status_code (Reply c b) = c"
| "status_code (Fail c m) = c"

text \<open>
  A member of a request body or a query parameter that holds a string is a
  \<open>string option\<close>, \<open>None\<close> when it is missing. \<^verbatim>\<open>!v\<close> holds of a missing member and of
  the empty string.
\<close>

definition falsy :: "string option \<Rightarrow> bool" where
  "falsy v = (case v of None \<Rightarrow> True | Some s \<Rightarrow> s = [])"

section \<open>RSVP routes\<close>

record rsvp_body =
  body_eventID :: "string option"
  body_status :: "string option"

definition validStatuses :: "string list" where
  "validStatuses = [''ACCEPTED'', ''DECLINED'', ''TENTATIVE'', ''PENDING'']"

definition rsvp_matches :: "string \<Rightarrow> string \<Rightarrow> rsvp_row \<Rightarrow> bool" where
  "rsvp_matches userID evID r = (rsvp_userID r = userID \<and> rsvp_eventID r = evID)"

definition find_event :: "store \<Rightarrow> string \<Rightarrow> event_row option" where
  "find_event db evID = single (filter (\<lambda>e. eventID e = evID) (events db))"

definition find_rsvp :: "store \<Rightarrow> string \<Rightarrow> string \<Rightarrow> rsvp_row option" where
  "find_rsvp db userID evID = single (filter (rsvp_matches userID evID) (rsvps db))"

text \<open>
  \<^verbatim>\<open>POST /api/rsvp\<close>. \<open>newID\<close> and \<open>now\<close> are the primary key and the creation time the
  store gives an inserted row. The update writes the status of every row of the pair
  and, like the insert, reads the written rows back with \<^verbatim>\<open>.single()\<close>.
\<close>

definition post_rsvp ::
  "string \<Rightarrow> timestamp \<Rightarrow> store \<Rightarrow> string \<Rightarrow> rsvp_body
    \<Rightarrow> (string \<times> rsvp_row) response \<times> store" where
  "post_rsvp newID now db userID req =
    (if falsy (body_eventID req) \<or> falsy (body_status req) then
       (Fail 400 ''Event ID and status are required'', db)
     else
       (case (body_eventID req, body_status req) of
          (Some evID, Some status) \<Rightarrow>
            if status \<notin> set validStatuses then (Fail 400 ''Invalid RSVP status'', db)
            else
              (case find_event db evID of
                 None \<Rightarrow> (Fail 404 ''Event not found'', db)
               | Some event \<Rightarrow>
                  (case find_rsvp db userID evID of
                     Some existingRSVP \<Rightarrow>
                       (let written = map (\<lambda>r. r\<lparr>rsvp_status := status\<rparr>)
                                        (filter (rsvp_matches userID evID) (rsvps db));
                            db' = db\<lparr>rsvps := map (\<lambda>r. if rsvp_matches userID evID r
                                                         then r\<lparr>rsvp_status := status\<rparr> else r)
                                                  (rsvps db)\<rparr>
                        in case single written of
                             None \<Rightarrow> (Fail 500 ''Failed to update RSVP'', db)
                           | Some updatedRSVP \<Rightarrow>
                               (Reply 200 (''RSVP updated successfully'', updatedRSVP), db'))
                   | None \<Rightarrow>
                       (let newRSVP = \<lparr>rsvpID = newID, rsvp_userID = userID,
                                       rsvp_eventID = evID, rsvp_status = status,
                                       rsvp_createdAt = now\<rparr>
                        in (Reply 200 (''RSVP created successfully'', newRSVP),
                            db\<lparr>rsvps := rsvps db @ [newRSVP]\<rparr>))))
        | _ \<Rightarrow> (Fail 400 ''Event ID and status are required'', db)))"

text \<open>\<^verbatim>\<open>DELETE /api/rsvp/:eventID\<close>.\<close>

definition delete_rsvp :: "store \<Rightarrow> string \<Rightarrow> string \<Rightarrow> string response \<times> store" where
  "delete_rsvp db userID evID =
    (case find_rsvp db userID evID of
       None \<Rightarrow> (Fail 404 ''RSVP not found'', db)
     | Some rsvp \<Rightarrow>
         (Reply 200 ''RSVP deleted successfully'',
          db\<lparr>rsvps := filter (\<lambda>r. \<not> rsvp_matches userID evID r) (rsvps db)\<rparr>))"

text \<open>
  \<^verbatim>\<open>GET /api/rsvp/event/:eventID\<close>. The accumulator of the \<^verbatim>\<open>reduce\<close> is a plain
  object: a status that names a member of \<^verbatim>\<open>Object.prototype\<close> finds that member
  under \<^verbatim>\<open>acc[rsvp.status]\<close>, no array is stored, and \<^verbatim>\<open>push\<close> throws; the handler
  then answers 500.
\<close>

definition object_prototype_keys :: "string list" where
  "object_prototype_keys =
    [''constructor'', ''__defineGetter__'', ''__defineSetter__'', ''hasOwnProperty'',
     ''__lookupGetter__'', ''__lookupSetter__'', ''isPrototypeOf'',
     ''propertyIsEnumerable'', ''toString'', ''valueOf'', ''__proto__'',
     ''toLocaleString'']"

fun group_by_status ::
  "(string \<rightharpoonup> rsvp_row list) \<Rightarrow> rsvp_row list \<Rightarrow> (string \<rightharpoonup> rsvp_row list) option" where
  "group_by_status acc [] = Some acc"
| "group_by_status acc (r # rs) =
    (case acc (rsvp_status r) of
       Some bucket \<Rightarrow> group_by_status (acc(rsvp_status r \<mapsto> bucket @ [r])) rs
     | None \<Rightarrow>
         if rsvp_status r \<in> set object_prototype_keys then None
         else group_by_status (acc(rsvp_status r \<mapsto> [r])) rs)"

record rsvp_statistics =
  total :: nat
  accepted :: nat
  declined :: nat
  tentative :: nat
  pending :: nat

record event_rsvps =
  listed_rsvps :: "rsvp_row list"
  rsvpsByStatus :: "string \<rightharpoonup> rsvp_row list"
  statistics :: rsvp_statistics

definition bucket_length :: "(string \<rightharpoonup> rsvp_row list) \<Rightarrow> string \<Rightarrow> nat" where
  "bucket_length m k = (case m k of None \<Rightarrow> 0 | Some b \<Rightarrow> length b)"

text \<open>The query of the listing: the RSVPs of the event, newest first, of one status if asked.\<close>

definition select_event_rsvps :: "store \<Rightarrow> string \<Rightarrow> string option \<Rightarrow> rsvp_row list" where
  "select_event_rsvps db evID status =
    (let selected = rev (sort_key rsvp_createdAt
                          (filter (\<lambda>r. rsvp_eventID r = evID) (rsvps db)))
     in if falsy status then selected
        else filter (\<lambda>r. Some (rsvp_status r) = status) selected)"

definition get_event_rsvps :: "store \<Rightarrow> string \<Rightarrow> string option \<Rightarrow> event_rsvps response" where
  "get_event_rsvps db evID status =
    (let found = select_event_rsvps db evID status
     in case group_by_status Map.empty found of
          None \<Rightarrow> Fail 500 ''Internal server error''
        | Some byStatus \<Rightarrow>
            Reply 200
              \<lparr>listed_rsvps = found,
               rsvpsByStatus = byStatus,
               statistics = \<lparr>total = length found,
                              accepted = bucket_length byStatus ''ACCEPTED'',
                              declined = bucket_length byStatus ''DECLINED'',
                              tentative = bucket_length byStatus ''TENTATIVE'',
                              pending = bucket_length byStatus ''PENDING''\<rparr>\<rparr>)"

section \<open>Subscription routes\<close>

text \<open>
  The client renders \<^verbatim>\<open>.eq(column, v)\<close> into the request as the filter
  \<^verbatim>\<open>column=eq.\<close> followed by the text of \<^verbatim>\<open>v\<close>, which for \<^verbatim>\<open>null\<close> is the text
  \<^verbatim>\<open>null\<close>; the store evaluates the filter with the SQL operator \<^verbatim>\<open>=\<close>, which no
  NULL column satisfies (the test for NULL is \<^verbatim>\<open>.is\<close>, which no handler uses).
\<close>

definition filter_text :: "string option \<Rightarrow> string" where
  "filter_text v = (case v of None \<Rightarrow> ''null'' | Some s \<Rightarrow> s)"

definition eq_filter :: "string option \<Rightarrow> string option \<Rightarrow> bool" where
  "eq_filter column v = (column = Some (filter_text v))"

text \<open>\<^verbatim>\<open>v || null\<close> on a string member.\<close>

definition or_null :: "string option \<Rightarrow> string option" where
  "or_null v = (if falsy v then None else v)"

text \<open>
  A member that holds a date is given by what \<^verbatim>\<open>new Date\<close> makes of it: a time value,
  or the invalid date whose time value is NaN.
\<close>

datatype jsdate = TimeValue int | InvalidDate

record subscription_body =
  sb_gicsSector :: "string option"
  sb_gicsSubCategory :: "string option"
  sb_subEnd :: "jsdate option"

definition similar_subscription ::
  "string \<Rightarrow> string \<Rightarrow> string option \<Rightarrow> subscription_row \<Rightarrow> bool" where
  "similar_subscription userID sector subCategory s =
    (sub_userID s = userID \<and> eq_filter (sub_gicsSector s) (Some sector) \<and>
     eq_filter (sub_gicsSubCategory s) (or_null subCategory) \<and> sub_status s = ''ACTIVE'')"

text \<open>
  \<^verbatim>\<open>POST /api/subscriptions\<close>. The row to insert is built before the insert is sent, so
  \<^verbatim>\<open>toISOString\<close> of an invalid \<^verbatim>\<open>subEnd\<close> throws with nothing written.
\<close>

definition post_subscription ::
  "string \<Rightarrow> timestamp \<Rightarrow> store \<Rightarrow> string \<Rightarrow> subscription_body
    \<Rightarrow> (string \<times> subscription_row) response \<times> store" where
  "post_subscription newID now db userID req =
    (case sb_gicsSector req of
       None \<Rightarrow> (Fail 400 ''GICS sector is required'', db)
     | Some sector \<Rightarrow>
         if sector = [] then (Fail 400 ''GICS sector is required'', db)
         else
           (let existingSubscriptions =
                  take 1 (filter (similar_subscription userID sector (sb_gicsSubCategory req))
                                 (subscriptions db))
            in if length existingSubscriptions > 0 then
                 (Fail 409 ''Similar active subscription already exists'', db)
               else
                 (case sb_subEnd req of
                    Some InvalidDate \<Rightarrow> (Fail 500 ''Internal server error'', db)
                  | subEndDate \<Rightarrow>
                      (let subscription =
                             \<lparr>subID = newID, subStart = now,
                              subEnd = (case subEndDate of Some (TimeValue t) \<Rightarrow> Some t
                                        | _ \<Rightarrow> None),
                              sub_userID = userID, sub_gicsSector = Some sector,
                              sub_gicsSubCategory = or_null (sb_gicsSubCategory req),
                              sub_status = ''ACTIVE'', sub_createdAt = now\<rparr>
                       in (Reply 201 (''Subscription created successfully'', subscription),
                           db\<lparr>subscriptions := subscriptions db @ [subscription]\<rparr>)))))"

text \<open>
  A member of the body of \<^verbatim>\<open>PUT /api/subscriptions/:id\<close> is tested against
  \<^verbatim>\<open>undefined\<close>, so it has three forms. For a date, \<open>Null\<close> stands for every defined
  value that is not truthy.
\<close>

datatype 'a field = Undefined | Null | Val 'a

record subscription_update =
  su_gicsSector :: "string field"
  su_gicsSubCategory :: "string field"
  su_subEnd :: "jsdate field"
  su_status :: "string field"

definition validSubscriptionStatuses :: "string list" where
  "validSubscriptionStatuses = [''ACTIVE'', ''INACTIVE'', ''EXPIRED'']"

definition find_subscription :: "store \<Rightarrow> string \<Rightarrow> subscription_row option" where
  "find_subscription db ident = single (filter (\<lambda>s. subID s = ident) (subscriptions db))"

text \<open>
  The columns \<^verbatim>\<open>updateData\<close> names are written to the rows of the id; a column it does
  not name keeps its value. \<^verbatim>\<open>status\<close> is not nullable: the store refuses \<^verbatim>\<open>null\<close>
  for it.
\<close>

definition apply_update :: "subscription_update \<Rightarrow> subscription_row \<Rightarrow> subscription_row" where
  "apply_update req s =
    s\<lparr>sub_gicsSector := (case su_gicsSector req of
                            Undefined \<Rightarrow> sub_gicsSector s | Null \<Rightarrow> None | Val v \<Rightarrow> Some v),
      sub_gicsSubCategory := (case su_gicsSubCategory req of
                            Undefined \<Rightarrow> sub_gicsSubCategory s | Null \<Rightarrow> None | Val v \<Rightarrow> Some v),
      subEnd := (case su_subEnd req of
                            Undefined \<Rightarrow> subEnd s | Val (TimeValue t) \<Rightarrow> Some t | _ \<Rightarrow> None),
      sub_status := (case su_status req of Val v \<Rightarrow> v | _ \<Rightarrow> sub_status s)\<rparr>"

definition put_subscription ::
  "store \<Rightarrow> string \<Rightarrow> string \<Rightarrow> subscription_update
    \<Rightarrow> (string \<times> subscription_row) response \<times> store" where
  "put_subscription db userID ident req =
    (case find_subscription db ident of
       None \<Rightarrow> (Fail 404 ''Subscription not found'', db)
     | Some existingSubscription \<Rightarrow>
         if sub_userID existingSubscription \<noteq> userID then
           (Fail 403 ''Insufficient permissions'', db)
         else if (case su_status req of
                    Val status \<Rightarrow> status \<noteq> [] \<and> status \<notin> set validSubscriptionStatuses
                  | _ \<Rightarrow> False) then
           (Fail 400 ''Invalid subscription status'', db)
         else if su_subEnd req = Val InvalidDate then
           (Fail 500 ''Internal server error'', db)
         else if su_status req = Null then
           (Fail 500 ''Failed to update subscription'', db)
         else
           (Reply 200 (''Subscription updated successfully'',
                       apply_update req existingSubscription),
            db\<lparr>subscriptions := map (\<lambda>s. if subID s = ident then apply_update req s else s)
                                      (subscriptions db)\<rparr>))"

section \<open>Event creation\<close>

record event_body =
  eb_eventName :: "string option"
  eb_tickerSymbol :: "string option"
  eb_gicsSector :: "string option"
  eb_gicsSubSector :: "string option"
  eb_eventType :: "string option"
  eb_location :: "string option"
  eb_hostCompany :: "string option"
  eb_companyID :: "string option"
  eb_startDate :: "jsdate option"
  eb_endDate :: "jsdate option"
  eb_description :: "string option"

definition validEventTypes :: "string list" where
  "validEventTypes =
    [''EARNINGS_CALL'', ''INVESTOR_MEETING'', ''CONFERENCE'', ''ROADSHOW'', ''ANALYST_DAY'',
     ''PRODUCT_LAUNCH'', ''OTHER'']"

text \<open>\<^verbatim>\<open>a <= b\<close> on two dates compares the time values and is false when one is NaN.\<close>

fun date_le :: "jsdate \<Rightarrow> jsdate \<Rightarrow> bool" where
  "date_le (TimeValue a) (TimeValue b) = (a \<le> b)"
| "date_le a b = False"

text \<open>
  \<^verbatim>\<open>POST /api/events\<close>, behind the middleware that admits the role \<^verbatim>\<open>IR_ADMIN\<close> only.
  \<^verbatim>\<open>toISOString\<close> of an invalid date throws while the row is built.
\<close>

definition post_event ::
  "string \<Rightarrow> store \<Rightarrow> event_body \<Rightarrow> (string \<times> event_row) response \<times> store" where
  "post_event newID db req =
    (if falsy (eb_eventName req) \<or> falsy (eb_eventType req) \<or> eb_startDate req = None then
       (Fail 400 ''Event name, type, and start date are required'', db)
     else
       (case (eb_eventName req, eb_eventType req, eb_startDate req) of
          (Some name, Some type, Some start) \<Rightarrow>
            if type \<notin> set validEventTypes then (Fail 400 ''Invalid event type'', db)
            else if (case eb_endDate req of None \<Rightarrow> False | Some endD \<Rightarrow> date_le endD start)
            then (Fail 400 ''End date must be after start date'', db)
            else
              (case (start, eb_endDate req) of
                 (InvalidDate, _) \<Rightarrow> (Fail 500 ''Internal server error'', db)
               | (TimeValue s, Some InvalidDate) \<Rightarrow> (Fail 500 ''Internal server error'', db)
               | (TimeValue s, endD) \<Rightarrow>
                   (let event =
                          \<lparr>eventID = newID, eventName = name,
                           tickerSymbol = or_null (eb_tickerSymbol req),
                           gicsSector = or_null (eb_gicsSector req),
                           gicsSubSector = or_null (eb_gicsSubSector req),
                           eventType = type,
                           location = or_null (eb_location req),
                           hostCompany = or_null (eb_hostCompany req),
                           companyID = or_null (eb_companyID req),
                           startDate = s,
                           endDate = (case endD of Some (TimeValue e) \<Rightarrow> Some e | _ \<Rightarrow> None),
                           description = or_null (eb_description req)\<rparr>
                    in (Reply 201 (''Event created successfully'', event),
                        db\<lparr>events := events db @ [event]\<rparr>)))
        | _ \<Rightarrow> (Fail 400 ''Event name, type, and start date are required'', db)))"

section \<open>Dates\<close>

text \<open>
  The date operations of the runtime on time values. \<^verbatim>\<open>toISOString\<close> works in UTC;
  \<^verbatim>\<open>getDate\<close>, \<^verbatim>\<open>setDate\<close>, \<^verbatim>\<open>getDay\<close>, \<^verbatim>\<open>setHours\<close>, \<^verbatim>\<open>toDateString\<close> and the
  constructor \<^verbatim>\<open>new Date(year, month, day)\<close> work in the local time of the server, which
  is taken to be UTC shifted by a constant \<open>tz\<close> milliseconds (no daylight saving), so
  that local time is \<open>t + tz\<close> and a step of \<^verbatim>\<open>setDate\<close> by one day is 24 hours.
  Time values are integers; the bound the runtime puts on their magnitude (100 million
  days around the epoch) is not modelled.
\<close>

definition msPerDay :: int where
  "msPerDay = 86400000"

definition utc_day :: "timestamp \<Rightarrow> int" where
  "utc_day t = t div msPerDay"

definition local_day :: "int \<Rightarrow> timestamp \<Rightarrow> int" where
  "local_day tz t = (t + tz) div msPerDay"

text \<open>Year, month (1 to 12) and day of the month of a day number, and back.\<close>

definition civil_from_days :: "int \<Rightarrow> int \<times> int \<times> int" where
  "civil_from_days z =
    (let shifted = z + 719468;
         era = shifted div 146097;
         doe = shifted mod 146097;
         yoe = (doe - doe div 1460 + doe div 36524 - doe div 146096) div 365;
         doy = doe - (365 * yoe + yoe div 4 - yoe div 100);
         mp = (5 * doy + 2) div 153;
         d = doy - (153 * mp + 2) div 5 + 1;
         m = (if mp < 10 then mp + 3 else mp - 9);
         y = yoe + era * 400 + (if m \<le> 2 then 1 else 0)
     in (y, m, d))"

definition days_from_civil :: "int \<Rightarrow> int \<Rightarrow> int \<Rightarrow> int" where
  "days_from_civil y m d =
    (let y' = (if m \<le> 2 then y - 1 else y);
         era = y' div 400;
         yoe = y' mod 400;
         doy = (153 * (if m > 2 then m - 3 else m + 9) + 2) div 5 + d - 1;
         doe = yoe * 365 + yoe div 4 - yoe div 100 + doy
     in era * 146097 + doe - 719468)"

definition digit :: "int \<Rightarrow> char" where
  "digit n = ''0123456789'' ! nat (n mod 10)"

definition pad2 :: "int \<Rightarrow> string" where
  "pad2 n = [digit (n div 10), digit n]"

definition pad4 :: "int \<Rightarrow> string" where
  "pad4 n = [digit (n div 1000), digit (n div 100), digit (n div 10), digit n]"

definition pad6 :: "int \<Rightarrow> string" where
  "pad6 n = [digit (n div 100000), digit (n div 10000), digit (n div 1000), digit (n div 100),
             digit (n div 10), digit n]"

definition iso_year :: "int \<Rightarrow> string" where
  "iso_year y = (if 0 \<le> y \<and> y \<le> 9999 then pad4 y
                 else if y < 0 then CHR ''-'' # pad6 (- y) else CHR ''+'' # pad6 y)"

definition iso_of_day :: "int \<Rightarrow> string" where
  "iso_of_day z = (case civil_from_days z of
                     (y, m, d) \<Rightarrow> iso_year y @ ''-'' @ pad2 m @ ''-'' @ pad2 d)"

text \<open>\<^verbatim>\<open>d.toISOString().split('T')[0]\<close>.\<close>

definition toISODate :: "timestamp \<Rightarrow> string" where
  "toISODate t = iso_of_day (utc_day t)"

text \<open>\<^verbatim>\<open>d.getDay()\<close>, 0 for Sunday; day 0 of the epoch is a Thursday.\<close>

definition getDay :: "int \<Rightarrow> timestamp \<Rightarrow> int" where
  "getDay tz t = (local_day tz t + 4) mod 7"

definition getFullYear :: "int \<Rightarrow> timestamp \<Rightarrow> int" where
  "getFullYear tz t = fst (civil_from_days (local_day tz t))"

definition getMonth :: "int \<Rightarrow> timestamp \<Rightarrow> int" where
  "getMonth tz t = fst (snd (civil_from_days (local_day tz t))) - 1"

text \<open>\<^verbatim>\<open>d.setDate(d.getDate() + n)\<close>.\<close>

definition add_days :: "timestamp \<Rightarrow> int \<Rightarrow> timestamp" where
  "add_days t n = t + n * msPerDay"

text \<open>\<^verbatim>\<open>d.setHours(23, 59, 59, 999)\<close>.\<close>

definition end_of_day :: "int \<Rightarrow> timestamp \<Rightarrow> timestamp" where
  "end_of_day tz t = local_day tz t * msPerDay + (msPerDay - 1) - tz"

text \<open>
  \<^verbatim>\<open>new Date(year, monthIndex, day)\<close>: a month index outside 0 to 11 carries into the
  year, a day outside the month carries into the neighbouring month, and a year from 0
  to 99 stands for 1900 plus that year.
\<close>

definition local_date :: "int \<Rightarrow> int \<Rightarrow> int \<Rightarrow> int \<Rightarrow> timestamp" where
  "local_date tz year monthIndex day =
    (let yr = (if 0 \<le> year \<and> year \<le> 99 then 1900 + year else year)
     in (days_from_civil (yr + monthIndex div 12) (monthIndex mod 12 + 1) 1 + day - 1)
          * msPerDay - tz)"

definition day_names :: "string list" where
  "day_names = [''Sunday'', ''Monday'', ''Tuesday'', ''Wednesday'', ''Thursday'', ''Friday'',
                ''Saturday'']"

text \<open>\<^verbatim>\<open>d.toLocaleDateString('en-US', { weekday: 'long' })\<close>.\<close>

definition dayName :: "int \<Rightarrow> timestamp \<Rightarrow> string" where
  "dayName tz t = day_names ! nat (getDay tz t)"

section \<open>Calendar routes\<close>

record calendar_query =
  q_startDate :: "jsdate option"
  q_endDate :: "jsdate option"
  q_gicsSector :: "string option"
  q_eventType :: "string option"
  q_followedCompanies :: "string option"

text \<open>An event as the queries fetch it, with its embedded company and RSVPs.\<close>

record fetched_event =
  fe_row :: event_row
  fe_gicsCompany :: "company_row option"
  fe_rsvps :: "rsvp_row list"

definition embed_event :: "store \<Rightarrow> event_row \<Rightarrow> fetched_event" where
  "embed_event db e =
    \<lparr>fe_row = e,
     fe_gicsCompany = (case tickerSymbol e of
                         None \<Rightarrow> None
                       | Some t \<Rightarrow> find (\<lambda>c. co_tickerSymbol c = t) (gics_companies db)),
     fe_rsvps = filter (\<lambda>r. rsvp_eventID r = eventID e) (rsvps db)\<rparr>"

text \<open>\<^verbatim>\<open>s.split(',')\<close>.\<close>

fun split_comma :: "string \<Rightarrow> string list" where
  "split_comma [] = [[]]"
| "split_comma (c # cs) =
    (if c = CHR '','' then [] # split_comma cs
     else (case split_comma cs of [] \<Rightarrow> [[c]] | w # ws \<Rightarrow> (c # w) # ws))"

definition calendar_start :: "int \<Rightarrow> timestamp \<Rightarrow> calendar_query \<Rightarrow> jsdate" where
  "calendar_start tz now q =
    (case q_startDate q of
       Some d \<Rightarrow> d
     | None \<Rightarrow> TimeValue (local_date tz (getFullYear tz now) (getMonth tz now) 1))"

definition calendar_end :: "int \<Rightarrow> timestamp \<Rightarrow> calendar_query \<Rightarrow> jsdate" where
  "calendar_end tz now q =
    (case q_endDate q of
       Some d \<Rightarrow> d
     | None \<Rightarrow> TimeValue (local_date tz (getFullYear tz now) (getMonth tz now + 1) 0))"

definition calendar_events ::
  "store \<Rightarrow> calendar_query \<Rightarrow> timestamp \<Rightarrow> timestamp \<Rightarrow> fetched_event list" where
  "calendar_events db q s e =
    map (embed_event db)
      (sort_key startDate
        (filter (\<lambda>ev. s \<le> startDate ev \<and> startDate ev \<le> e \<and>
                      (falsy (q_gicsSector q) \<or> eq_filter (gicsSector ev) (q_gicsSector q)) \<and>
                      (falsy (q_eventType q) \<or> Some (eventType ev) = q_eventType q) \<and>
                      (case q_followedCompanies q of
                         None \<Rightarrow> True
                       | Some followed \<Rightarrow>
                           followed = [] \<or>
                           (case tickerSymbol ev of
                              None \<Rightarrow> False
                            | Some t \<Rightarrow> t \<in> set (split_comma followed))))
                (events db)))"

record company_info =
  ci_tickerSymbol :: string
  ci_companyName :: string
  ci_gicsSector :: string
  ci_gicsSubCategory :: string

type_synonym cell = "fetched_event \<times> rsvp_row option"

record calendar_line =
  company :: company_info
  line_events :: "string \<rightharpoonup> cell list"

text \<open>The \<^verbatim>\<open>forEach\<close> that groups the events of one company by date key.\<close>

fun group_by_date ::
  "string \<Rightarrow> (string \<rightharpoonup> cell list) \<Rightarrow> fetched_event list \<Rightarrow> (string \<rightharpoonup> cell list)" where
  "group_by_date userID acc [] = acc"
| "group_by_date userID acc (ev # evs) =
    (let dateKey = toISODate (startDate (fe_row ev));
         entry = (ev, find (\<lambda>r. rsvp_userID r = userID) (fe_rsvps ev))
     in group_by_date userID
          (acc(dateKey \<mapsto> (case acc dateKey of None \<Rightarrow> [] | Some b \<Rightarrow> b) @ [entry])) evs)"

definition company_info_of :: "company_row \<Rightarrow> company_info" where
  "company_info_of c =
    \<lparr>ci_tickerSymbol = co_tickerSymbol c, ci_companyName = companyName c,
     ci_gicsSector = co_gicsSector c, ci_gicsSubCategory = co_gicsSubCategory c\<rparr>"

definition calendar_row :: "string \<Rightarrow> fetched_event list \<Rightarrow> company_row \<Rightarrow> calendar_line" where
  "calendar_row userID evs c =
    (let companyEvents =
           filter (\<lambda>ev. tickerSymbol (fe_row ev) = Some (co_tickerSymbol c) \<or>
                         (case fe_gicsCompany ev of
                            None \<Rightarrow> False
                          | Some g \<Rightarrow> co_tickerSymbol g = co_tickerSymbol c)) evs
     in \<lparr>company = company_info_of c,
         line_events = group_by_date userID Map.empty companyEvents\<rparr>)"

text \<open>The loop that builds the date axis.\<close>

function date_grid :: "timestamp \<Rightarrow> timestamp \<Rightarrow> string list" where
  "date_grid current e =
    (if current \<le> e then toISODate current # date_grid (add_days current 1) e else [])"
  by pat_completeness auto
termination
  by (relation "measure (\<lambda>(current, e). nat (e - current + 1))")
     (auto simp: add_days_def msPerDay_def)

declare date_grid.simps [simp del]

text \<open>
  The count of events by type is kept in a plain object. Under a type that names a
  member of \<^verbatim>\<open>Object.prototype\<close> the sum \<^verbatim>\<open>(acc[type] || 0) + 1\<close> is a string, not a
  number, and an assignment to \<^verbatim>\<open>__proto__\<close> of a string is dropped.
\<close>

datatype type_count = Count nat | NotANumber

fun count_by_type :: "(string \<rightharpoonup> type_count) \<Rightarrow> fetched_event list \<Rightarrow> (string \<rightharpoonup> type_count)" where
  "count_by_type acc [] = acc"
| "count_by_type acc (ev # evs) =
    (let k = eventType (fe_row ev)
     in count_by_type
          (if k = ''__proto__'' then acc
           else acc(k \<mapsto> (case acc k of
                             Some (Count n) \<Rightarrow> Count (n + 1)
                           | Some NotANumber \<Rightarrow> NotANumber
                           | None \<Rightarrow> if k \<in> set object_prototype_keys then NotANumber
                                     else Count 1)))
          evs)"

record calendar_statistics =
  totalEvents :: nat
  userRsvps :: nat
  eventsByType :: "string \<rightharpoonup> type_count"

record calendar_response =
  calendarData :: "calendar_line list"
  dateGrid :: "string list"
  dateRange :: "string \<times> string"
  userSubscriptions :: "subscription_row list"
  cal_statistics :: calendar_statistics

text \<open>
  \<^verbatim>\<open>GET /api/calendar\<close>. \<^verbatim>\<open>toISOString\<close> of an invalid start or end throws while the
  event query is built.
\<close>

definition get_calendar ::
  "int \<Rightarrow> timestamp \<Rightarrow> store \<Rightarrow> string \<Rightarrow> calendar_query \<Rightarrow> calendar_response response" where
  "get_calendar tz now db userID q =
    (case (calendar_start tz now q, calendar_end tz now q) of
       (TimeValue s, TimeValue e) \<Rightarrow>
         (let evs = calendar_events db q s e;
              gicsCompanies = sort_key companyName (gics_companies db)
          in Reply 200
               \<lparr>calendarData = map (calendar_row userID evs) gicsCompanies,
                dateGrid = date_grid s e,
                dateRange = (toISODate s, toISODate e),
                userSubscriptions =
                  filter (\<lambda>sub. sub_userID sub = userID \<and> sub_status sub = ''ACTIVE'')
                         (subscriptions db),
                cal_statistics =
                  \<lparr>totalEvents = length evs,
                   userRsvps = sum_list (map (\<lambda>ev. length (filter (\<lambda>r. rsvp_userID r = userID)
                                                                  (fe_rsvps ev))) evs),
                   eventsByType = count_by_type Map.empty evs\<rparr>\<rparr>)
     | _ \<Rightarrow> Fail 500 ''Internal server error'')"

record week_day =
  wd_date :: string
  wd_dayName :: string
  wd_events :: "fetched_event list"

record week_response =
  weekData :: "week_day list"
  weekRange :: "string \<times> string"

text \<open>
  The event query of the week view: the inner join keeps the events that have an RSVP
  of the user and embeds those RSVPs only.
\<close>

definition week_events :: "store \<Rightarrow> string \<Rightarrow> timestamp \<Rightarrow> timestamp \<Rightarrow> fetched_event list" where
  "week_events db userID s e =
    map (\<lambda>ev. (embed_event db ev)\<lparr>fe_rsvps := filter (\<lambda>r. rsvp_eventID r = eventID ev \<and>
                                                         rsvp_userID r = userID) (rsvps db)\<rparr>)
      (sort_key startDate
        (filter (\<lambda>ev. s \<le> startDate ev \<and> startDate ev \<le> e \<and>
                      filter (\<lambda>r. rsvp_eventID r = eventID ev \<and> rsvp_userID r = userID)
                             (rsvps db) \<noteq> [])
                (events db)))"

definition startOfWeek :: "int \<Rightarrow> timestamp \<Rightarrow> timestamp" where
  "startOfWeek tz targetDate = add_days targetDate (- getDay tz targetDate + 1)"

definition endOfWeek :: "int \<Rightarrow> timestamp \<Rightarrow> timestamp" where
  "endOfWeek tz targetDate = end_of_day tz (add_days (startOfWeek tz targetDate) 6)"

text \<open>\<^verbatim>\<open>GET /api/calendar/week\<close>; \<open>date\<close> is the query parameter, \<open>now\<close> its default.\<close>

definition get_week ::
  "int \<Rightarrow> timestamp \<Rightarrow> store \<Rightarrow> string \<Rightarrow> jsdate option \<Rightarrow> week_response response" where
  "get_week tz now db userID date =
    (case (case date of None \<Rightarrow> TimeValue now | Some d \<Rightarrow> d) of
       InvalidDate \<Rightarrow> Fail 500 ''Internal server error''
     | TimeValue targetDate \<Rightarrow>
         (let evs = week_events db userID (startOfWeek tz targetDate) (endOfWeek tz targetDate)
          in Reply 200
               \<lparr>weekData =
                  map (\<lambda>i. let currentDay = add_days (startOfWeek tz targetDate) (int i)
                           in \<lparr>wd_date = toISODate currentDay,
                               wd_dayName = dayName tz currentDay,
                               wd_events = filter (\<lambda>ev. local_day tz (startDate (fe_row ev))
                                                         = local_day tz currentDay) evs\<rparr>)
                      [0..<7],
                weekRange = (toISODate (startOfWeek tz targetDate),
                             toISODate (endOfWeek tz targetDate))\<rparr>))"

section \<open>Predicates used in the statements\<close>

text \<open>
  The argument validation of \<^verbatim>\<open>POST /api/rsvp\<close>: both members present and the status
  one of the four values.
\<close>

definition rsvp_request_valid :: "rsvp_body \<Rightarrow> bool" where
  "rsvp_request_valid req =
    (\<not> falsy (body_eventID req) \<and> \<not> falsy (body_status req) \<and>
     (case body_status req of None \<Rightarrow> False | Some s \<Rightarrow> s \<in> set validStatuses))"

text \<open>
  The invariant of the data model: at most one RSVP for a pair of user and event.
\<close>

definition rsvp_key :: "rsvp_row \<Rightarrow> string \<times> string" where
  "rsvp_key r = (rsvp_userID r, rsvp_eventID r)"

definition one_rsvp_per_pair :: "store \<Rightarrow> bool" where
  "one_rsvp_per_pair db = distinct (map rsvp_key (rsvps db))"

text \<open>The content of a status bucket, empty when the object has no such member.\<close>

definition bucket :: "(string \<rightharpoonup> rsvp_row list) \<Rightarrow> string \<Rightarrow> rsvp_row list" where
  "bucket m k = (case m k of None \<Rightarrow> [] | Some b \<Rightarrow> b)"

text \<open>The body of an answer, when it has one.\<close>

fun reply_body :: "'a response \<Rightarrow> 'a option" where
  "reply_body (Reply c b) = Some b"
| "reply_body (Fail c m) = None"

definition empty_store :: store where
  "empty_store = \<lparr>events = [], rsvps = [], subscriptions = [], gics_companies = []\<rparr>"

section \<open>RSVP upsert: validation comes before the store\<close>

text \<open>
  C9. A request of \<^verbatim>\<open>POST /api/rsvp\<close> whose event id or status is missing, or whose
  status is not one of the four valid values, is answered 400 with a message and a
  store that do not depend on the store's content, whether or not the event exists;
  a 404 answer is given only to a request that passes the validation.
\<close>

theorem post_rsvp_validation_first:
  "(\<not> rsvp_request_valid req \<longrightarrow>
      (\<exists>msg. \<forall>db newID now userID.
         post_rsvp newID now db userID req = (Fail 400 msg, db))) \<and>
   (status_code (fst (post_rsvp newID now db userID req)) = 404 \<longrightarrow> rsvp_request_valid req)"
  apply (cases "body_eventID req"; cases "body_status req")
  apply (auto simp: rsvp_request_valid_def post_rsvp_def falsy_def Let_def split: option.splits)
  done

theorem post_rsvp_validation_first_witness:
  "\<not> rsvp_request_valid \<lparr>body_eventID = Some ''e1'', body_status = Some ''MAYBE''\<rparr> \<and>
   (\<exists>msg. \<forall>db newID now userID.
      post_rsvp newID now db userID \<lparr>body_eventID = Some ''e1'', body_status = Some ''MAYBE''\<rparr>
        = (Fail 400 msg, db)) \<and>
   status_code (fst (post_rsvp ''r1'' 0 empty_store ''u1''
      \<lparr>body_eventID = Some ''e1'', body_status = Some ''ACCEPTED''\<rparr>)) = 404 \<and>
   rsvp_request_valid \<lparr>body_eventID = Some ''e1'', body_status = Some ''ACCEPTED''\<rparr>"
proof -
  have invalid: "\<not> rsvp_request_valid \<lparr>body_eventID = Some ''e1'', body_status = Some ''MAYBE''\<rparr>"
    by (simp add: rsvp_request_valid_def validStatuses_def falsy_def)
  have missing: "status_code (fst (post_rsvp ''r1'' 0 empty_store ''u1''
      \<lparr>body_eventID = Some ''e1'', body_status = Some ''ACCEPTED''\<rparr>)) = 404"
    by (simp add: post_rsvp_def falsy_def validStatuses_def find_event_def empty_store_def)
  from invalid missing
    post_rsvp_validation_first
      [of "\<lparr>body_eventID = Some ''e1'', body_status = Some ''MAYBE''\<rparr>"]
    post_rsvp_validation_first
      [of "\<lparr>body_eventID = Some ''e1'', body_status = Some ''ACCEPTED''\<rparr>"
          "''r1''" 0 empty_store "''u1''"]
  show ?thesis by blast
qed

section \<open>Facts about the store queries\<close>

lemma single_eq_Some: "(single xs = Some r) = (xs = [r])"
  by (cases xs rule: single.cases) auto

lemma single_eq_None: "(single xs = None) = (length xs \<noteq> 1)"
  by (cases xs rule: single.cases) auto

lemma valid_status_not_empty: "s \<in> set validStatuses \<Longrightarrow> s \<noteq> []"
  by (auto simp: validStatuses_def)

lemma distinct_key_filter:
  "distinct (map f xs) \<Longrightarrow> length (filter (\<lambda>x. f x = k) xs) \<le> 1"
proof (induction xs)
  case Nil
  then show ?case by simp
next
  case (Cons x xs)
  show ?case
  proof (cases "f x = k")
    case True
    with Cons.prems have "filter (\<lambda>x. f x = k) xs = []"
      by (force simp: filter_empty_conv image_iff)
    with True show ?thesis by simp
  next
    case False
    with Cons show ?thesis by simp
  qed
qed

lemma matches_key: "rsvp_matches u e = (\<lambda>r. rsvp_key r = (u, e))"
  by (auto simp: rsvp_matches_def rsvp_key_def)

lemma one_per_pair_filter:
  "one_rsvp_per_pair db \<Longrightarrow> length (filter (rsvp_matches u e) (rsvps db)) \<le> 1"
  unfolding one_rsvp_per_pair_def matches_key by (rule distinct_key_filter)

lemma filter_filter_not: "filter P (filter (\<lambda>x. \<not> P x) xs) = []"
  by (induction xs) auto

section \<open>RSVP upsert: create, then update\<close>

lemma post_rsvp_create:
  assumes "find_event db evID \<noteq> None" "evID \<noteq> []" "s \<in> set validStatuses"
    "filter (rsvp_matches userID evID) (rsvps db) = []"
  shows "post_rsvp newID now db userID \<lparr>body_eventID = Some evID, body_status = Some s\<rparr> =
     (Reply 200 (''RSVP created successfully'',
        \<lparr>rsvpID = newID, rsvp_userID = userID, rsvp_eventID = evID, rsvp_status = s,
         rsvp_createdAt = now\<rparr>),
      db\<lparr>rsvps := rsvps db @ [\<lparr>rsvpID = newID, rsvp_userID = userID, rsvp_eventID = evID,
                                rsvp_status = s, rsvp_createdAt = now\<rparr>]\<rparr>)"
  using assms valid_status_not_empty[OF assms(3)]
  by (auto simp: post_rsvp_def falsy_def find_rsvp_def Let_def split: option.splits)

lemma post_rsvp_update:
  assumes "find_event db evID \<noteq> None" "evID \<noteq> []" "s \<in> set validStatuses"
    "filter (rsvp_matches userID evID) (rsvps db) = [r]"
  shows "post_rsvp newID now db userID \<lparr>body_eventID = Some evID, body_status = Some s\<rparr> =
     (Reply 200 (''RSVP updated successfully'', r\<lparr>rsvp_status := s\<rparr>),
      db\<lparr>rsvps := map (\<lambda>r. if rsvp_matches userID evID r then r\<lparr>rsvp_status := s\<rparr> else r)
                      (rsvps db)\<rparr>)"
  using assms valid_status_not_empty[OF assms(3)]
  by (auto simp: post_rsvp_def falsy_def find_rsvp_def Let_def split: option.splits)

text \<open>
  C1. Let the event exist and let the pair of user and event have no RSVP yet. Two
  calls of \<^verbatim>\<open>POST /api/rsvp\<close> with valid statuses \<open>s1\<close>, then \<open>s2\<close>: the first answers
  200 "created", the second 200 "updated"; afterwards the pair has exactly one RSVP,
  the row the second call returns, and its status is \<open>s2\<close>; and the store after both
  calls is the store a single creating call with \<open>s2\<close> leaves, so the two paths differ
  in the message only.
\<close>

theorem rsvp_upsert_twice:
  assumes "find_event db evID \<noteq> None" and "evID \<noteq> []"
    and "s1 \<in> set validStatuses" and "s2 \<in> set validStatuses"
    and "filter (rsvp_matches userID evID) (rsvps db) = []"
  shows "\<exists>r1 r2 db1 db2.
     post_rsvp id1 t1 db userID \<lparr>body_eventID = Some evID, body_status = Some s1\<rparr>
       = (Reply 200 (''RSVP created successfully'', r1), db1) \<and>
     post_rsvp id2 t2 db1 userID \<lparr>body_eventID = Some evID, body_status = Some s2\<rparr>
       = (Reply 200 (''RSVP updated successfully'', r2), db2) \<and>
     filter (rsvp_matches userID evID) (rsvps db2) = [r2] \<and> rsvp_status r2 = s2 \<and>
     snd (post_rsvp id1 t1 db userID \<lparr>body_eventID = Some evID, body_status = Some s2\<rparr>) = db2"
proof -
  let ?row = "\<lambda>s. \<lparr>rsvpID = id1, rsvp_userID = userID, rsvp_eventID = evID, rsvp_status = s,
                     rsvp_createdAt = t1\<rparr>"
  let ?db1 = "db\<lparr>rsvps := rsvps db @ [?row s1]\<rparr>"
  have keep: "map (\<lambda>r. if rsvp_matches userID evID r then r\<lparr>rsvp_status := s2\<rparr> else r) (rsvps db)
      = rsvps db"
    using assms(5) by (induction "rsvps db") (auto simp: filter_empty_conv map_idI)
  have first: "post_rsvp id1 t1 db userID \<lparr>body_eventID = Some evID, body_status = Some s1\<rparr>
      = (Reply 200 (''RSVP created successfully'', ?row s1), ?db1)"
    by (rule post_rsvp_create[OF assms(1,2,3,5)])
  have direct: "post_rsvp id1 t1 db userID \<lparr>body_eventID = Some evID, body_status = Some s2\<rparr>
      = (Reply 200 (''RSVP created successfully'', ?row s2), db\<lparr>rsvps := rsvps db @ [?row s2]\<rparr>)"
    by (rule post_rsvp_create[OF assms(1,2,4,5)])
  have ev1: "find_event ?db1 evID \<noteq> None"
    using assms(1) by (simp add: find_event_def)
  have m1: "filter (rsvp_matches userID evID) (rsvps ?db1) = [?row s1]"
    using assms(5) by (simp add: rsvp_matches_def)
  have second: "post_rsvp id2 t2 ?db1 userID \<lparr>body_eventID = Some evID, body_status = Some s2\<rparr>
      = (Reply 200 (''RSVP updated successfully'', ?row s2),
         db\<lparr>rsvps := rsvps db @ [?row s2]\<rparr>)"
    using post_rsvp_update[OF ev1 assms(2,4) m1, of id2 t2] keep
    by (simp add: rsvp_matches_def)
  show ?thesis
    using first second direct assms(5) by (simp add: rsvp_matches_def)
qed

text \<open>
  The same two calls when the pair already has its one RSVP: both take the update
  path, and the one row ends with the status \<open>s2\<close>.
\<close>

lemma upsert_on_existing_row_twice:
  assumes "find_event db evID \<noteq> None" and "evID \<noteq> []"
    and "s1 \<in> set validStatuses" and "s2 \<in> set validStatuses"
    and "filter (rsvp_matches userID evID) (rsvps db) = [r]"
  shows "\<exists>db1 db2.
     post_rsvp id1 t1 db userID \<lparr>body_eventID = Some evID, body_status = Some s1\<rparr>
       = (Reply 200 (''RSVP updated successfully'', r\<lparr>rsvp_status := s1\<rparr>), db1) \<and>
     post_rsvp id2 t2 db1 userID \<lparr>body_eventID = Some evID, body_status = Some s2\<rparr>
       = (Reply 200 (''RSVP updated successfully'', r\<lparr>rsvp_status := s2\<rparr>), db2) \<and>
     filter (rsvp_matches userID evID) (rsvps db2) = [r\<lparr>rsvp_status := s2\<rparr>]"
proof -
  let ?upd = "\<lambda>s r. if rsvp_matches userID evID r then r\<lparr>rsvp_status := s\<rparr> else r"
  let ?db1 = "db\<lparr>rsvps := map (?upd s1) (rsvps db)\<rparr>"
  let ?db2 = "?db1\<lparr>rsvps := map (?upd s2) (rsvps ?db1)\<rparr>"
  have flt: "filter (rsvp_matches userID evID) (map (?upd s) rs)
      = map (\<lambda>r. r\<lparr>rsvp_status := s\<rparr>) (filter (rsvp_matches userID evID) rs)" for s rs
    by (induction rs) (auto simp: rsvp_matches_def)
  have first: "post_rsvp id1 t1 db userID \<lparr>body_eventID = Some evID, body_status = Some s1\<rparr>
      = (Reply 200 (''RSVP updated successfully'', r\<lparr>rsvp_status := s1\<rparr>), ?db1)"
    by (rule post_rsvp_update[OF assms(1,2,3,5)])
  have ev1: "find_event ?db1 evID \<noteq> None"
    using assms(1) by (simp add: find_event_def)
  have m1: "filter (rsvp_matches userID evID) (rsvps ?db1) = [r\<lparr>rsvp_status := s1\<rparr>]"
    using assms(5) by (simp add: flt)
  have second: "post_rsvp id2 t2 ?db1 userID \<lparr>body_eventID = Some evID, body_status = Some s2\<rparr>
      = (Reply 200 (''RSVP updated successfully'', r\<lparr>rsvp_status := s1, rsvp_status := s2\<rparr>), ?db2)"
    by (rule post_rsvp_update[OF ev1 assms(2,4) m1])
  have m2: "filter (rsvp_matches userID evID) (rsvps ?db2) = [r\<lparr>rsvp_status := s2\<rparr>]"
  proof -
    have "filter (rsvp_matches userID evID) (map (?upd s2) (rsvps ?db1))
        = map (\<lambda>r. r\<lparr>rsvp_status := s2\<rparr>) (filter (rsvp_matches userID evID) (rsvps ?db1))"
      by (rule flt)
    also have "\<dots> = [r\<lparr>rsvp_status := s1, rsvp_status := s2\<rparr>]"
      by (simp only: m1 list.map)
    finally show ?thesis by simp
  qed
  show ?thesis
    using first second m2 by simp
qed

text \<open>The upsert and the deletion keep the invariant of one RSVP for a pair.\<close>

lemma key_of_update:
  "rsvp_key \<circ> (\<lambda>r. if P r then r\<lparr>rsvp_status := s\<rparr> else r) = rsvp_key"
  by (auto simp: rsvp_key_def fun_eq_iff)

lemma post_rsvp_keeps_invariant:
  assumes "one_rsvp_per_pair db"
  shows "one_rsvp_per_pair (snd (post_rsvp newID now db userID req))"
proof -
  have fresh: "rsvp_key \<lparr>rsvpID = newID, rsvp_userID = userID, rsvp_eventID = e, rsvp_status = s,
                        rsvp_createdAt = now\<rparr> \<notin> rsvp_key ` set (rsvps db)"
    if "find_rsvp db userID e = None" for e s
  proof -
    from that have "length (filter (rsvp_matches userID e) (rsvps db)) \<noteq> 1"
      by (simp add: find_rsvp_def single_eq_None)
    with one_per_pair_filter[OF assms, of userID e]
    have "filter (rsvp_matches userID e) (rsvps db) = []"
      by (cases "filter (rsvp_matches userID e) (rsvps db)") auto
    then show ?thesis
      by (auto simp: filter_empty_conv rsvp_matches_def rsvp_key_def)
  qed
  show ?thesis
    using assms fresh
    by (auto simp: post_rsvp_def one_rsvp_per_pair_def Let_def key_of_update
             split: option.splits)
qed

lemma delete_rsvp_keeps_invariant:
  "one_rsvp_per_pair db \<Longrightarrow> one_rsvp_per_pair (snd (delete_rsvp db userID evID))"
  by (auto simp: delete_rsvp_def one_rsvp_per_pair_def distinct_map_filter split: option.splits)

theorem rsvp_upsert_twice_witness:
  "find_event (empty_store\<lparr>events := [\<lparr>eventID = ''e1'', eventName = ''Q1 Earnings'',
        tickerSymbol = None, gicsSector = None, gicsSubSector = None,
        eventType = ''EARNINGS_CALL'', location = None, hostCompany = None, companyID = None,
        startDate = 1712757600000, endDate = None, description = None\<rparr>]\<rparr>) ''e1'' \<noteq> None \<and>
   ''ACCEPTED'' \<in> set validStatuses \<and> ''TENTATIVE'' \<in> set validStatuses \<and>
   (\<exists>r1 r2 db1 db2.
     post_rsvp ''r1'' 10 (empty_store\<lparr>events := [\<lparr>eventID = ''e1'', eventName = ''Q1 Earnings'',
        tickerSymbol = None, gicsSector = None, gicsSubSector = None,
        eventType = ''EARNINGS_CALL'', location = None, hostCompany = None, companyID = None,
        startDate = 1712757600000, endDate = None, description = None\<rparr>]\<rparr>) ''u1''
        \<lparr>body_eventID = Some ''e1'', body_status = Some ''ACCEPTED''\<rparr>
       = (Reply 200 (''RSVP created successfully'', r1), db1) \<and>
     post_rsvp ''r2'' 20 db1 ''u1'' \<lparr>body_eventID = Some ''e1'', body_status = Some ''TENTATIVE''\<rparr>
       = (Reply 200 (''RSVP updated successfully'', r2), db2) \<and>
     filter (rsvp_matches ''u1'' ''e1'') (rsvps db2) = [r2] \<and> rsvp_status r2 = ''TENTATIVE'')"
proof -
  let ?db = "empty_store\<lparr>events := [\<lparr>eventID = ''e1'', eventName = ''Q1 Earnings'',
        tickerSymbol = None, gicsSector = None, gicsSubSector = None,
        eventType = ''EARNINGS_CALL'', location = None, hostCompany = None, companyID = None,
        startDate = 1712757600000, endDate = None, description = None\<rparr>]\<rparr>"
  have ev: "find_event ?db ''e1'' \<noteq> None"
    by (simp add: find_event_def empty_store_def)
  have ne: "''e1'' \<noteq> []" by simp
  have v1: "''ACCEPTED'' \<in> set validStatuses" by (simp add: validStatuses_def)
  have v2: "''TENTATIVE'' \<in> set validStatuses" by (simp add: validStatuses_def)
  have none: "filter (rsvp_matches ''u1'' ''e1'') (rsvps ?db) = []"
    by (simp add: empty_store_def)
  from rsvp_upsert_twice[OF ev ne v1 v2 none, of "''r1''" 10 "''r2''" 20] ev v1 v2
  show ?thesis by blast
qed

section \<open>RSVP deletion\<close>

text \<open>
  C7. In a store that holds at most one RSVP for a pair of user and event:
  \<^verbatim>\<open>DELETE /api/rsvp/:eventID\<close> answers 404 and leaves the store as it is when the
  pair has no row; when the pair has a row, it answers 200, removes that row and no
  other, and the same deletion repeated answers 404 and changes nothing.
\<close>

theorem delete_rsvp_twice:
  assumes "one_rsvp_per_pair db"
  shows "(filter (rsvp_matches userID evID) (rsvps db) = [] \<longrightarrow>
            delete_rsvp db userID evID = (Fail 404 ''RSVP not found'', db)) \<and>
         (filter (rsvp_matches userID evID) (rsvps db) \<noteq> [] \<longrightarrow>
            (\<exists>db1. delete_rsvp db userID evID = (Reply 200 ''RSVP deleted successfully'', db1) \<and>
               rsvps db1 = filter (\<lambda>r. \<not> rsvp_matches userID evID r) (rsvps db) \<and>
               filter (rsvp_matches userID evID) (rsvps db1) = [] \<and>
               delete_rsvp db1 userID evID = (Fail 404 ''RSVP not found'', db1)))"
proof -
  have le: "length (filter (rsvp_matches userID evID) (rsvps db)) \<le> 1"
    by (rule one_per_pair_filter[OF assms])
  show ?thesis
  proof (cases "filter (rsvp_matches userID evID) (rsvps db)")
    case Nil
    then show ?thesis by (simp add: delete_rsvp_def find_rsvp_def)
  next
    case (Cons r rest)
    with le have one: "filter (rsvp_matches userID evID) (rsvps db) = [r]" by simp
    then show ?thesis
      by (simp add: delete_rsvp_def find_rsvp_def filter_filter_not)
  qed
qed

theorem delete_rsvp_twice_witness:
  "one_rsvp_per_pair empty_store \<and>
   delete_rsvp empty_store ''u1'' ''e1'' = (Fail 404 ''RSVP not found'', empty_store) \<and>
   one_rsvp_per_pair (empty_store\<lparr>rsvps :=
      [\<lparr>rsvpID = ''r1'', rsvp_userID = ''u1'', rsvp_eventID = ''e1'', rsvp_status = ''ACCEPTED'',
        rsvp_createdAt = 10\<rparr>,
       \<lparr>rsvpID = ''r2'', rsvp_userID = ''u2'', rsvp_eventID = ''e1'', rsvp_status = ''DECLINED'',
        rsvp_createdAt = 20\<rparr>]\<rparr>) \<and>
   (\<exists>db1. delete_rsvp (empty_store\<lparr>rsvps :=
      [\<lparr>rsvpID = ''r1'', rsvp_userID = ''u1'', rsvp_eventID = ''e1'', rsvp_status = ''ACCEPTED'',
        rsvp_createdAt = 10\<rparr>,
       \<lparr>rsvpID = ''r2'', rsvp_userID = ''u2'', rsvp_eventID = ''e1'', rsvp_status = ''DECLINED'',
        rsvp_createdAt = 20\<rparr>]\<rparr>) ''u1'' ''e1'' = (Reply 200 ''RSVP deleted successfully'', db1) \<and>
      rsvps db1 = [\<lparr>rsvpID = ''r2'', rsvp_userID = ''u2'', rsvp_eventID = ''e1'',
                    rsvp_status = ''DECLINED'', rsvp_createdAt = 20\<rparr>] \<and>
      delete_rsvp db1 ''u1'' ''e1'' = (Fail 404 ''RSVP not found'', db1))"
proof -
  let ?db = "empty_store\<lparr>rsvps :=
      [\<lparr>rsvpID = ''r1'', rsvp_userID = ''u1'', rsvp_eventID = ''e1'', rsvp_status = ''ACCEPTED'',
        rsvp_createdAt = 10\<rparr>,
       \<lparr>rsvpID = ''r2'', rsvp_userID = ''u2'', rsvp_eventID = ''e1'', rsvp_status = ''DECLINED'',
        rsvp_createdAt = 20\<rparr>]\<rparr>"
  have inv0: "one_rsvp_per_pair empty_store"
    by (simp add: one_rsvp_per_pair_def empty_store_def)
  have inv: "one_rsvp_per_pair ?db"
    by (simp add: one_rsvp_per_pair_def rsvp_key_def)
  have none: "filter (rsvp_matches ''u1'' ''e1'') (rsvps empty_store) = []"
    by (simp add: empty_store_def)
  have some: "filter (rsvp_matches ''u1'' ''e1'') (rsvps ?db) \<noteq> []"
    by (simp add: rsvp_matches_def)
  have rest: "filter (\<lambda>r. \<not> rsvp_matches ''u1'' ''e1'' r) (rsvps ?db)
      = [\<lparr>rsvpID = ''r2'', rsvp_userID = ''u2'', rsvp_eventID = ''e1'',
          rsvp_status = ''DECLINED'', rsvp_createdAt = 20\<rparr>]"
    by (simp add: rsvp_matches_def)
  from delete_rsvp_twice[OF inv0, of "''u1''" "''e1''"] none
  have a: "delete_rsvp empty_store ''u1'' ''e1'' = (Fail 404 ''RSVP not found'', empty_store)"
    by blast
  from delete_rsvp_twice[OF inv, of "''u1''" "''e1''"] some rest
  have b: "\<exists>db1. delete_rsvp ?db ''u1'' ''e1'' = (Reply 200 ''RSVP deleted successfully'', db1) \<and>
      rsvps db1 = [\<lparr>rsvpID = ''r2'', rsvp_userID = ''u2'', rsvp_eventID = ''e1'',
                    rsvp_status = ''DECLINED'', rsvp_createdAt = 20\<rparr>] \<and>
      delete_rsvp db1 ''u1'' ''e1'' = (Fail 404 ''RSVP not found'', db1)"
    by auto
  from inv0 inv a b show ?thesis by blast
qed

section \<open>Listing the RSVPs of an event\<close>

lemma bucket_length_bucket: "bucket_length m k = length (bucket m k)"
  by (simp add: bucket_length_def bucket_def split: option.splits)

lemma group_by_status_buckets:
  "group_by_status acc rs = Some m \<Longrightarrow>
     bucket m k = bucket acc k @ filter (\<lambda>r. rsvp_status r = k) rs"
proof (induction rs arbitrary: acc)
  case Nil
  then show ?case by simp
next
  case (Cons r rs)
  show ?case
  proof (cases "acc (rsvp_status r)")
    case None
    with Cons.prems have "group_by_status (acc(rsvp_status r \<mapsto> [r])) rs = Some m"
      by (simp split: if_splits)
    from Cons.IH[OF this] None show ?thesis
      by (auto simp: bucket_def)
  next
    case (Some b)
    with Cons.prems have "group_by_status (acc(rsvp_status r \<mapsto> b @ [r])) rs = Some m"
      by simp
    from Cons.IH[OF this] Some show ?thesis
      by (auto simp: bucket_def)
  qed
qed

lemma group_by_status_returns:
  "\<forall>r\<in>set rs. rsvp_status r \<notin> set object_prototype_keys \<Longrightarrow>
     \<exists>m. group_by_status acc rs = Some m"
  by (induction rs arbitrary: acc) (auto split: option.splits)

lemma valid_status_not_prototype:
  "s \<in> set validStatuses \<Longrightarrow> s \<notin> set object_prototype_keys"
  by (auto simp: validStatuses_def object_prototype_keys_def)

lemma valid_status_partition:
  "\<forall>r\<in>set rs. rsvp_status r \<in> set validStatuses \<Longrightarrow>
     length rs = length (filter (\<lambda>r. rsvp_status r = ''ACCEPTED'') rs)
               + length (filter (\<lambda>r. rsvp_status r = ''DECLINED'') rs)
               + length (filter (\<lambda>r. rsvp_status r = ''TENTATIVE'') rs)
               + length (filter (\<lambda>r. rsvp_status r = ''PENDING'') rs)"
  by (induction rs) (auto simp: validStatuses_def)

lemma select_event_rsvps_subset: "set (select_event_rsvps db evID status) \<subseteq> set (rsvps db)"
  by (auto simp: select_event_rsvps_def Let_def)

lemma get_event_rsvps_Reply:
  "get_event_rsvps db evID status = Reply c out \<Longrightarrow>
     c = 200 \<and> listed_rsvps out = select_event_rsvps db evID status \<and>
     group_by_status Map.empty (select_event_rsvps db evID status) = Some (rsvpsByStatus out) \<and>
     total (statistics out) = length (listed_rsvps out) \<and>
     accepted (statistics out) = bucket_length (rsvpsByStatus out) ''ACCEPTED'' \<and>
     declined (statistics out) = bucket_length (rsvpsByStatus out) ''DECLINED'' \<and>
     tentative (statistics out) = bucket_length (rsvpsByStatus out) ''TENTATIVE'' \<and>
     pending (statistics out) = bucket_length (rsvpsByStatus out) ''PENDING''"
  by (auto simp: get_event_rsvps_def Let_def split: option.splits)

lemma get_event_rsvps_returns:
  assumes "\<forall>r\<in>set (rsvps db). rsvp_status r \<in> set validStatuses"
  shows "\<exists>out. get_event_rsvps db evID status = Reply 200 out"
proof -
  have "\<forall>r\<in>set (select_event_rsvps db evID status). rsvp_status r \<notin> set object_prototype_keys"
    using assms select_event_rsvps_subset valid_status_not_prototype by blast
  from group_by_status_returns[OF this, of Map.empty]
  show ?thesis
    by (auto simp: get_event_rsvps_def Let_def)
qed

text \<open>
  C10. Whenever \<^verbatim>\<open>GET /api/rsvp/event/:eventID\<close> answers with a listing, the bucket of
  each status is the list of the returned RSVPs of that status, so every returned RSVP
  is in the bucket of its own status and in no other. When every stored status is one
  of the four valid values, the handler answers 200, the total is the sum of the four
  counts, and each count is the length of its bucket.
\<close>

theorem event_rsvps_buckets_and_statistics:
  "(\<forall>out. get_event_rsvps db evID status = Reply 200 out \<longrightarrow>
      (\<forall>k. bucket (rsvpsByStatus out) k
             = filter (\<lambda>r. rsvp_status r = k) (listed_rsvps out)) \<and>
      (\<forall>r\<in>set (listed_rsvps out). \<forall>k.
             (r \<in> set (bucket (rsvpsByStatus out) k)) = (k = rsvp_status r))) \<and>
   ((\<forall>r\<in>set (rsvps db). rsvp_status r \<in> set validStatuses) \<longrightarrow>
      (\<exists>out. get_event_rsvps db evID status = Reply 200 out \<and>
         total (statistics out) = accepted (statistics out) + declined (statistics out)
             + tentative (statistics out) + pending (statistics out) \<and>
         accepted (statistics out) = length (bucket (rsvpsByStatus out) ''ACCEPTED'') \<and>
         declined (statistics out) = length (bucket (rsvpsByStatus out) ''DECLINED'') \<and>
         tentative (statistics out) = length (bucket (rsvpsByStatus out) ''TENTATIVE'') \<and>
         pending (statistics out) = length (bucket (rsvpsByStatus out) ''PENDING'')))"
proof (intro conjI allI impI)
  fix out k
  assume r: "get_event_rsvps db evID status = Reply 200 out"
  from get_event_rsvps_Reply[OF r]
  have g: "group_by_status Map.empty (listed_rsvps out) = Some (rsvpsByStatus out)" by simp
  from group_by_status_buckets[OF g, of k]
  show "bucket (rsvpsByStatus out) k = filter (\<lambda>r. rsvp_status r = k) (listed_rsvps out)"
    by (simp add: bucket_def)
next
  fix out
  assume r: "get_event_rsvps db evID status = Reply 200 out"
  from get_event_rsvps_Reply[OF r]
  have g: "group_by_status Map.empty (listed_rsvps out) = Some (rsvpsByStatus out)" by simp
  have "bucket (rsvpsByStatus out) k = filter (\<lambda>r. rsvp_status r = k) (listed_rsvps out)" for k
    using group_by_status_buckets[OF g, of k] by (simp add: bucket_def)
  then show "\<forall>r\<in>set (listed_rsvps out). \<forall>k.
      (r \<in> set (bucket (rsvpsByStatus out) k)) = (k = rsvp_status r)"
    by auto
next
  assume valid: "\<forall>r\<in>set (rsvps db). rsvp_status r \<in> set validStatuses"
  from get_event_rsvps_returns[OF valid] obtain out
    where r: "get_event_rsvps db evID status = Reply 200 out" by blast
  note facts = get_event_rsvps_Reply[OF r]
  from facts have g: "group_by_status Map.empty (listed_rsvps out) = Some (rsvpsByStatus out)"
    by simp
  have b: "bucket (rsvpsByStatus out) k = filter (\<lambda>r. rsvp_status r = k) (listed_rsvps out)" for k
    using group_by_status_buckets[OF g, of k] by (simp add: bucket_def)
  have "\<forall>r\<in>set (listed_rsvps out). rsvp_status r \<in> set validStatuses"
    using valid select_event_rsvps_subset[of db evID status] facts by auto
  from valid_status_partition[OF this] facts b
  have "total (statistics out) = accepted (statistics out) + declined (statistics out)
             + tentative (statistics out) + pending (statistics out)"
    by (simp add: bucket_length_bucket)
  with r facts show "\<exists>out. get_event_rsvps db evID status = Reply 200 out \<and>
         total (statistics out) = accepted (statistics out) + declined (statistics out)
             + tentative (statistics out) + pending (statistics out) \<and>
         accepted (statistics out) = length (bucket (rsvpsByStatus out) ''ACCEPTED'') \<and>
         declined (statistics out) = length (bucket (rsvpsByStatus out) ''DECLINED'') \<and>
         tentative (statistics out) = length (bucket (rsvpsByStatus out) ''TENTATIVE'') \<and>
         pending (statistics out) = length (bucket (rsvpsByStatus out) ''PENDING'')"
    by (auto simp: bucket_length_bucket)
qed

theorem event_rsvps_buckets_and_statistics_witness:
  "set (map rsvp_status (rsvps (empty_store\<lparr>rsvps :=
      [\<lparr>rsvpID = ''r1'', rsvp_userID = ''u1'', rsvp_eventID = ''e1'', rsvp_status = ''ACCEPTED'',
        rsvp_createdAt = 10\<rparr>,
       \<lparr>rsvpID = ''r2'', rsvp_userID = ''u2'', rsvp_eventID = ''e1'', rsvp_status = ''DECLINED'',
        rsvp_createdAt = 20\<rparr>]\<rparr>))) \<subseteq> set validStatuses \<and>
   (\<exists>out. get_event_rsvps (empty_store\<lparr>rsvps :=
      [\<lparr>rsvpID = ''r1'', rsvp_userID = ''u1'', rsvp_eventID = ''e1'', rsvp_status = ''ACCEPTED'',
        rsvp_createdAt = 10\<rparr>,
       \<lparr>rsvpID = ''r2'', rsvp_userID = ''u2'', rsvp_eventID = ''e1'', rsvp_status = ''DECLINED'',
        rsvp_createdAt = 20\<rparr>]\<rparr>) ''e1'' None = Reply 200 out \<and>
      length (listed_rsvps out) = 2 \<and>
      (\<forall>r\<in>set (listed_rsvps out). \<forall>k.
             (r \<in> set (bucket (rsvpsByStatus out) k)) = (k = rsvp_status r)) \<and>
      total (statistics out) = accepted (statistics out) + declined (statistics out)
             + tentative (statistics out) + pending (statistics out))"
proof -
  let ?db = "empty_store\<lparr>rsvps :=
      [\<lparr>rsvpID = ''r1'', rsvp_userID = ''u1'', rsvp_eventID = ''e1'', rsvp_status = ''ACCEPTED'',
        rsvp_createdAt = 10\<rparr>,
       \<lparr>rsvpID = ''r2'', rsvp_userID = ''u2'', rsvp_eventID = ''e1'', rsvp_status = ''DECLINED'',
        rsvp_createdAt = 20\<rparr>]\<rparr>"
  have valid: "\<forall>r\<in>set (rsvps ?db). rsvp_status r \<in> set validStatuses"
    by (simp add: validStatuses_def)
  note inst = event_rsvps_buckets_and_statistics[of ?db "''e1''" None]
  from inst valid obtain out where out: "get_event_rsvps ?db ''e1'' None = Reply 200 out"
    and sum: "total (statistics out) = accepted (statistics out) + declined (statistics out)
             + tentative (statistics out) + pending (statistics out)"
    by blast
  from inst out have one: "\<forall>r\<in>set (listed_rsvps out). \<forall>k.
             (r \<in> set (bucket (rsvpsByStatus out) k)) = (k = rsvp_status r)"
    by blast
  have "listed_rsvps out = select_event_rsvps ?db ''e1'' None"
    using get_event_rsvps_Reply[OF out] by simp
  then have len: "length (listed_rsvps out) = 2"
    by (simp add: select_event_rsvps_def falsy_def)
  have valid': "set (map rsvp_status (rsvps ?db)) \<subseteq> set validStatuses"
    by (simp add: validStatuses_def)
  from valid' out len one sum show ?thesis by blast
qed

section \<open>Subscription creation and the duplicate check\<close>

lemma similar_subscription_never_null:
  "falsy subCategory \<Longrightarrow> sub_gicsSubCategory s = None \<Longrightarrow>
     \<not> similar_subscription userID sector subCategory s"
  by (simp add: similar_subscription_def eq_filter_def)

text \<open>
  A request that names a sub-category finds the active subscription of the same user,
  sector and sub-category, is answered 409 and writes nothing.
\<close>

lemma post_subscription_conflict:
  assumes "s \<in> set (subscriptions db)" and "sub_userID s = userID"
    and "sub_gicsSector s = Some sector" and "sector \<noteq> []"
    and "sub_gicsSubCategory s = Some subCategory" and "subCategory \<noteq> []"
    and "sub_status s = ''ACTIVE''"
  shows "post_subscription newID now db userID
           \<lparr>sb_gicsSector = Some sector, sb_gicsSubCategory = Some subCategory,
            sb_subEnd = subEndDate\<rparr>
         = (Fail 409 ''Similar active subscription already exists'', db)"
proof -
  have "similar_subscription userID sector (Some subCategory) s"
    using assms
    by (simp add: similar_subscription_def eq_filter_def filter_text_def or_null_def falsy_def)
  with assms(1) have "filter (similar_subscription userID sector (Some subCategory))
      (subscriptions db) \<noteq> []"
    by (auto simp: filter_empty_conv)
  then show ?thesis
    using assms(4) by (simp add: post_subscription_def Let_def)
qed

text \<open>
  A request without a sub-category compares the column with the text \<^verbatim>\<open>null\<close>. The rows
  it stores hold NULL there, so in a store whose sub-categories are all NULL or
  different from that text the duplicate check finds nothing and the request is never
  answered 409.
\<close>

lemma post_subscription_without_subcategory:
  assumes "falsy subCategory"
    and "\<forall>s\<in>set (subscriptions db). sub_gicsSubCategory s \<noteq> Some ''null''"
  shows "status_code (fst (post_subscription newID now db userID
           \<lparr>sb_gicsSector = sector, sb_gicsSubCategory = subCategory,
            sb_subEnd = subEndDate\<rparr>)) \<noteq> 409"
proof -
  have "\<not> similar_subscription userID sec subCategory s" if "s \<in> set (subscriptions db)" for s sec
    using that assms
    by (auto simp: similar_subscription_def eq_filter_def filter_text_def or_null_def)
  then have "filter (similar_subscription userID sec subCategory) (subscriptions db) = []" for sec
    by (simp add: filter_empty_conv)
  then show ?thesis
    by (auto simp: post_subscription_def Let_def split: option.splits jsdate.splits)
qed

text \<open>
  C2. The same user posts the body \<^verbatim>\<open>{gicsSector: "Energy"}\<close> twice to
  \<^verbatim>\<open>POST /api/subscriptions\<close>, starting from the empty store. Both calls are answered
  201, and the store ends with two active subscriptions of that user for the sector
  with no sub-category: the second call is not answered 409.
\<close>

theorem subscription_without_subcategory_created_twice:
  "post_subscription ''s1'' 10 empty_store ''u1''
      \<lparr>sb_gicsSector = Some ''Energy'', sb_gicsSubCategory = None, sb_subEnd = None\<rparr>
    = (Reply 201 (''Subscription created successfully'',
         \<lparr>subID = ''s1'', subStart = 10, subEnd = None, sub_userID = ''u1'',
          sub_gicsSector = Some ''Energy'', sub_gicsSubCategory = None,
          sub_status = ''ACTIVE'', sub_createdAt = 10\<rparr>),
       empty_store\<lparr>subscriptions :=
         [\<lparr>subID = ''s1'', subStart = 10, subEnd = None, sub_userID = ''u1'',
           sub_gicsSector = Some ''Energy'', sub_gicsSubCategory = None,
           sub_status = ''ACTIVE'', sub_createdAt = 10\<rparr>]\<rparr>) \<and>
   post_subscription ''s2'' 20
      (empty_store\<lparr>subscriptions :=
         [\<lparr>subID = ''s1'', subStart = 10, subEnd = None, sub_userID = ''u1'',
           sub_gicsSector = Some ''Energy'', sub_gicsSubCategory = None,
           sub_status = ''ACTIVE'', sub_createdAt = 10\<rparr>]\<rparr>) ''u1''
      \<lparr>sb_gicsSector = Some ''Energy'', sb_gicsSubCategory = None, sb_subEnd = None\<rparr>
    = (Reply 201 (''Subscription created successfully'',
         \<lparr>subID = ''s2'', subStart = 20, subEnd = None, sub_userID = ''u1'',
          sub_gicsSector = Some ''Energy'', sub_gicsSubCategory = None,
          sub_status = ''ACTIVE'', sub_createdAt = 20\<rparr>),
       empty_store\<lparr>subscriptions :=
         [\<lparr>subID = ''s1'', subStart = 10, subEnd = None, sub_userID = ''u1'',
           sub_gicsSector = Some ''Energy'', sub_gicsSubCategory = None,
           sub_status = ''ACTIVE'', sub_createdAt = 10\<rparr>,
          \<lparr>subID = ''s2'', subStart = 20, subEnd = None, sub_userID = ''u1'',
           sub_gicsSector = Some ''Energy'', sub_gicsSubCategory = None,
           sub_status = ''ACTIVE'', sub_createdAt = 20\<rparr>]\<rparr>)"
  by (simp add: post_subscription_def similar_subscription_def eq_filter_def filter_text_def
        or_null_def falsy_def empty_store_def Let_def)

section \<open>Subscription update: ownership\<close>

text \<open>
  C8. \<^verbatim>\<open>PUT /api/subscriptions/:id\<close> on a subscription whose stored user is not the
  caller is answered 403 and returns the store as it was, so no field of the record
  changes; on an id no subscription has it is answered 404, again with the store as it
  was.
\<close>

theorem put_subscription_not_owner:
  "(\<forall>s. find_subscription db ident = Some s \<and> sub_userID s \<noteq> userID \<longrightarrow>
        put_subscription db userID ident req = (Fail 403 ''Insufficient permissions'', db)) \<and>
   (filter (\<lambda>s. subID s = ident) (subscriptions db) = [] \<longrightarrow>
        put_subscription db userID ident req = (Fail 404 ''Subscription not found'', db))"
  by (auto simp: put_subscription_def find_subscription_def)

theorem put_subscription_not_owner_witness:
  "find_subscription
      (empty_store\<lparr>subscriptions :=
         [\<lparr>subID = ''s1'', subStart = 10, subEnd = None, sub_userID = ''u1'',
           sub_gicsSector = Some ''Energy'', sub_gicsSubCategory = None,
           sub_status = ''ACTIVE'', sub_createdAt = 10\<rparr>]\<rparr>) ''s1''
     = Some \<lparr>subID = ''s1'', subStart = 10, subEnd = None, sub_userID = ''u1'',
           sub_gicsSector = Some ''Energy'', sub_gicsSubCategory = None,
           sub_status = ''ACTIVE'', sub_createdAt = 10\<rparr> \<and>
   put_subscription
      (empty_store\<lparr>subscriptions :=
         [\<lparr>subID = ''s1'', subStart = 10, subEnd = None, sub_userID = ''u1'',
           sub_gicsSector = Some ''Energy'', sub_gicsSubCategory = None,
           sub_status = ''ACTIVE'', sub_createdAt = 10\<rparr>]\<rparr>) ''u2'' ''s1''
      \<lparr>su_gicsSector = Undefined, su_gicsSubCategory = Undefined, su_subEnd = Undefined,
       su_status = Val ''INACTIVE''\<rparr>
     = (Fail 403 ''Insufficient permissions'',
        empty_store\<lparr>subscriptions :=
         [\<lparr>subID = ''s1'', subStart = 10, subEnd = None, sub_userID = ''u1'',
           sub_gicsSector = Some ''Energy'', sub_gicsSubCategory = None,
           sub_status = ''ACTIVE'', sub_createdAt = 10\<rparr>]\<rparr>) \<and>
   put_subscription empty_store ''u2'' ''s9''
      \<lparr>su_gicsSector = Undefined, su_gicsSubCategory = Undefined, su_subEnd = Undefined,
       su_status = Val ''INACTIVE''\<rparr>
     = (Fail 404 ''Subscription not found'', empty_store)"
proof -
  let ?row = "\<lparr>subID = ''s1'', subStart = 10, subEnd = None, sub_userID = ''u1'',
           sub_gicsSector = Some ''Energy'', sub_gicsSubCategory = None,
           sub_status = ''ACTIVE'', sub_createdAt = 10\<rparr>"
  let ?db = "empty_store\<lparr>subscriptions := [?row]\<rparr>"
  let ?req = "\<lparr>su_gicsSector = Undefined, su_gicsSubCategory = Undefined, su_subEnd = Undefined,
       su_status = Val ''INACTIVE''\<rparr>"
  have found: "find_subscription ?db ''s1'' = Some ?row"
    by (simp add: find_subscription_def)
  have other: "sub_userID ?row \<noteq> ''u2''" by simp
  have absent: "filter (\<lambda>s. subID s = ''s9'') (subscriptions empty_store) = []"
    by (simp add: empty_store_def)
  from put_subscription_not_owner[of ?db "''s1''" "''u2''" ?req] found other
  have a: "put_subscription ?db ''u2'' ''s1'' ?req = (Fail 403 ''Insufficient permissions'', ?db)"
    by blast
  from put_subscription_not_owner[of empty_store "''s9''" "''u2''" ?req] absent
  have b: "put_subscription empty_store ''u2'' ''s9'' ?req
      = (Fail 404 ''Subscription not found'', empty_store)"
    by blast
  from found a b show ?thesis by blast
qed

text \<open>The owner's update, for comparison, does write the record.\<close>

lemma put_subscription_owner_writes:
  "put_subscription
      (empty_store\<lparr>subscriptions :=
         [\<lparr>subID = ''s1'', subStart = 10, subEnd = None, sub_userID = ''u1'',
           sub_gicsSector = Some ''Energy'', sub_gicsSubCategory = None,
           sub_status = ''ACTIVE'', sub_createdAt = 10\<rparr>]\<rparr>) ''u1'' ''s1''
      \<lparr>su_gicsSector = Undefined, su_gicsSubCategory = Undefined, su_subEnd = Undefined,
       su_status = Val ''INACTIVE''\<rparr>
     = (Reply 200 (''Subscription updated successfully'',
          \<lparr>subID = ''s1'', subStart = 10, subEnd = None, sub_userID = ''u1'',
           sub_gicsSector = Some ''Energy'', sub_gicsSubCategory = None,
           sub_status = ''INACTIVE'', sub_createdAt = 10\<rparr>),
        empty_store\<lparr>subscriptions :=
         [\<lparr>subID = ''s1'', subStart = 10, subEnd = None, sub_userID = ''u1'',
           sub_gicsSector = Some ''Energy'', sub_gicsSubCategory = None,
           sub_status = ''INACTIVE'', sub_createdAt = 10\<rparr>]\<rparr>)"
  by (simp add: put_subscription_def find_subscription_def apply_update_def
        validSubscriptionStatuses_def empty_store_def)

section \<open>Event creation: the end date\<close>

text \<open>
  C6. A request to \<^verbatim>\<open>POST /api/events\<close> whose end date is present and not after its
  start date is answered 400 and inserts nothing. A request whose end date is after its
  start date is not refused for its dates, and when its name and type are valid too it
  is answered 201 and the event is inserted with those dates.
\<close>

theorem post_event_end_date:
  "(eb_startDate req = Some (TimeValue s) \<and> eb_endDate req = Some (TimeValue e) \<and> e \<le> s \<longrightarrow>
      (\<exists>msg. post_event newID db req = (Fail 400 msg, db))) \<and>
   (eb_startDate req = Some (TimeValue s) \<and> eb_endDate req = Some (TimeValue e) \<and> s < e \<longrightarrow>
      fst (post_event newID db req) \<noteq> Fail 400 ''End date must be after start date'' \<and>
      (\<not> falsy (eb_eventName req) \<and>
       (case eb_eventType req of None \<Rightarrow> False | Some t \<Rightarrow> t \<in> set validEventTypes) \<longrightarrow>
       (\<exists>ev. post_event newID db req
               = (Reply 201 (''Event created successfully'', ev), db\<lparr>events := events db @ [ev]\<rparr>) \<and>
             startDate ev = s \<and> endDate ev = Some e)))"
  by (cases "eb_eventName req"; cases "eb_eventType req")
     (auto simp: post_event_def falsy_def Let_def validEventTypes_def)

theorem post_event_end_date_witness:
  "(\<exists>msg. post_event ''e1'' empty_store
      \<lparr>eb_eventName = Some ''Q1 Earnings'', eb_tickerSymbol = None, eb_gicsSector = None,
       eb_gicsSubSector = None, eb_eventType = Some ''EARNINGS_CALL'', eb_location = None,
       eb_hostCompany = None, eb_companyID = None,
       eb_startDate = Some (TimeValue 1712757600000),
       eb_endDate = Some (TimeValue 1712757600000), eb_description = None\<rparr>
     = (Fail 400 msg, empty_store)) \<and>
   (\<exists>ev. post_event ''e1'' empty_store
      \<lparr>eb_eventName = Some ''Q1 Earnings'', eb_tickerSymbol = None, eb_gicsSector = None,
       eb_gicsSubSector = None, eb_eventType = Some ''EARNINGS_CALL'', eb_location = None,
       eb_hostCompany = None, eb_companyID = None,
       eb_startDate = Some (TimeValue 1712757600000),
       eb_endDate = Some (TimeValue 1712761200000), eb_description = None\<rparr>
     = (Reply 201 (''Event created successfully'', ev),
        empty_store\<lparr>events := events empty_store @ [ev]\<rparr>) \<and>
     startDate ev = 1712757600000 \<and> endDate ev = Some 1712761200000)"
proof -
  let ?req = "\<lambda>e. \<lparr>eb_eventName = Some ''Q1 Earnings'', eb_tickerSymbol = None,
       eb_gicsSector = None, eb_gicsSubSector = None, eb_eventType = Some ''EARNINGS_CALL'',
       eb_location = None, eb_hostCompany = None, eb_companyID = None,
       eb_startDate = Some (TimeValue 1712757600000),
       eb_endDate = Some (TimeValue e), eb_description = None\<rparr>"
  have name: "\<not> falsy (eb_eventName (?req e))" for e
    by (simp add: falsy_def)
  have type: "(case eb_eventType (?req e) of None \<Rightarrow> False | Some t \<Rightarrow> t \<in> set validEventTypes)"
    for e
    by (simp add: validEventTypes_def)
  from post_event_end_date[of "?req 1712757600000" 1712757600000 1712757600000 "''e1''" empty_store]
  have a: "\<exists>msg. post_event ''e1'' empty_store (?req 1712757600000) = (Fail 400 msg, empty_store)"
    by simp
  from post_event_end_date[of "?req 1712761200000" 1712757600000 1712761200000 "''e1''" empty_store]
    name[of 1712761200000] type[of 1712761200000]
  have b: "\<exists>ev. post_event ''e1'' empty_store (?req 1712761200000)
      = (Reply 201 (''Event created successfully'', ev),
         empty_store\<lparr>events := events empty_store @ [ev]\<rparr>) \<and>
      startDate ev = 1712757600000 \<and> endDate ev = Some 1712761200000"
    by simp
  from a b show ?thesis by blast
qed

section \<open>The date axis\<close>

lemma date_grid_unfold:
  "date_grid s e = (if s \<le> e then toISODate s # date_grid (add_days s 1) e else [])"
  by (subst date_grid.simps) simp

lemma date_grid_after: "e < s \<Longrightarrow> date_grid s e = []"
  by (subst date_grid.simps) simp

text \<open>
  The loop takes one step of 24 hours from the start for as long as it is not past the
  end.
\<close>

lemma date_grid_steps:
  "date_grid s e
     = map (\<lambda>k. toISODate (s + int k * msPerDay)) [0..<nat ((e - s) div msPerDay + 1)]"
proof (induction s e rule: date_grid.induct)
  case (1 current e)
  show ?case
  proof (cases "current \<le> e")
    case False
    then have "(e - current) div msPerDay + 1 \<le> 0"
      by (simp add: msPerDay_def)
    with False show ?thesis
      by (simp add: date_grid_after)
  next
    case True
    let ?n = "nat ((e - current) div msPerDay + 1)"
    from True have pos: "0 \<le> (e - current) div msPerDay"
      by (simp add: msPerDay_def)
    have step: "(e - add_days current 1) div msPerDay + 1 = (e - current) div msPerDay"
      by (simp add: add_days_def msPerDay_def)
    from pos have n: "?n = Suc (nat ((e - current) div msPerDay))"
      by simp
    have "date_grid current e = toISODate current # date_grid (add_days current 1) e"
      using True by (subst date_grid.simps) simp
    also have "date_grid (add_days current 1) e
        = map (\<lambda>k. toISODate (add_days current 1 + int k * msPerDay))
              [0..<nat ((e - current) div msPerDay)]"
      using "1.IH"[OF True] by (simp only: step)
    also have "toISODate current # map (\<lambda>k. toISODate (add_days current 1 + int k * msPerDay))
              [0..<nat ((e - current) div msPerDay)]
        = map (\<lambda>k. toISODate (current + int k * msPerDay)) [0..<?n]"
      unfolding n
      by (simp add: upt_conv_Cons map_Suc_upt[symmetric] add_days_def algebra_simps
               del: upt_Suc)
    finally show ?thesis .
  qed
qed

lemma length_date_grid:
  "length (date_grid s e) = nat ((e - s) div msPerDay + 1)"
  by (simp add: date_grid_steps)

lemma toISODate_step: "toISODate (s + int k * msPerDay) = iso_of_day (utc_day s + int k)"
  by (simp add: toISODate_def utc_day_def msPerDay_def add.commute)

lemma upto_as_map: "[a..a + int n - 1] = map (\<lambda>k. a + int k) [0..<n]"
proof (induction n arbitrary: a)
  case 0
  then show ?case by simp
next
  case (Suc n)
  have "[a..a + int (Suc n) - 1] = a # [a + 1..(a + 1) + int n - 1]"
    by (subst upto_rec1) simp_all
  also have "\<dots> = a # map (\<lambda>k. (a + 1) + int k) [0..<n]"
    by (simp only: Suc.IH)
  also have "\<dots> = map (\<lambda>k. a + int k) [0..<Suc n]"
    by (simp add: upt_conv_Cons map_Suc_upt[symmetric] del: upt_Suc)
  finally show ?case .
qed

text \<open>
  When the time of day of the start is not later than that of the end, as it is for two
  date-only parameters, the axis has one entry for each calendar day from the day of
  the start to the day of the end.
\<close>

lemma date_grid_days:
  assumes "s \<le> e" and "s mod msPerDay \<le> e mod msPerDay"
  shows "date_grid s e = map iso_of_day [utc_day s..utc_day e]"
proof -
  have d: "(e - s) div msPerDay = utc_day e - utc_day s"
  proof -
    have "e - s = (utc_day e - utc_day s) * msPerDay + (e mod msPerDay - s mod msPerDay)"
      by (simp add: utc_day_def algebra_simps)
    moreover have "0 \<le> e mod msPerDay - s mod msPerDay" using assms(2) by simp
    moreover have "e mod msPerDay - s mod msPerDay < msPerDay"
    proof -
      have "e mod msPerDay < msPerDay" by (simp add: msPerDay_def)
      moreover have "0 \<le> s mod msPerDay" by (simp add: msPerDay_def)
      ultimately show ?thesis by linarith
    qed
    ultimately show ?thesis
      by (metis add.commute div_mult_self2 div_pos_pos_trivial add_0 msPerDay_def
            mult.commute zero_neq_numeral)
  qed
  from assms(1) have le: "utc_day s \<le> utc_day e"
    by (simp add: utc_day_def msPerDay_def zdiv_mono1)
  define n where "n = nat (utc_day e - utc_day s + 1)"
  from le have e: "utc_day e = utc_day s + int n - 1"
    by (simp add: n_def)
  have "date_grid s e = map (\<lambda>k. iso_of_day (utc_day s + int k)) [0..<n]"
    by (simp add: date_grid_steps d toISODate_step n_def)
  also have "\<dots> = map iso_of_day (map (\<lambda>k. utc_day s + int k) [0..<n])"
    by simp
  also have "\<dots> = map iso_of_day [utc_day s..utc_day e]"
    by (simp only: e upto_as_map)
  finally show ?thesis .
qed

text \<open>
  When the time of day of the start is later than that of the end, the last step
  overshoots the end and the day of the end is left out.
\<close>

lemma date_grid_misses_last_day:
  assumes "s \<le> e" and "e mod msPerDay < s mod msPerDay"
  shows "date_grid s e = map iso_of_day [utc_day s..utc_day e - 1]"
proof -
  have d: "(e - s) div msPerDay = utc_day e - utc_day s - 1"
  proof -
    have "e - s = (utc_day e - utc_day s - 1) * msPerDay
                  + (msPerDay + e mod msPerDay - s mod msPerDay)"
      by (simp add: utc_day_def algebra_simps)
    moreover have "0 \<le> msPerDay + e mod msPerDay - s mod msPerDay"
    proof -
      have "s mod msPerDay < msPerDay" by (simp add: msPerDay_def)
      moreover have "0 \<le> e mod msPerDay" by (simp add: msPerDay_def)
      ultimately show ?thesis by linarith
    qed
    moreover have "msPerDay + e mod msPerDay - s mod msPerDay < msPerDay"
      using assms(2) by simp
    ultimately show ?thesis
      by (metis add.commute div_mult_self2 div_pos_pos_trivial add_0 msPerDay_def
            mult.commute zero_neq_numeral)
  qed
  from assms(1) have "0 \<le> (e - s) div msPerDay"
    by (simp add: msPerDay_def)
  with d have le: "utc_day s \<le> utc_day e - 1" by simp
  define n where "n = nat (utc_day e - utc_day s)"
  from le have e: "utc_day e - 1 = utc_day s + int n - 1"
    by (simp add: n_def)
  have "date_grid s e = map (\<lambda>k. iso_of_day (utc_day s + int k)) [0..<n]"
    by (simp add: date_grid_steps d toISODate_step n_def)
  also have "\<dots> = map iso_of_day (map (\<lambda>k. utc_day s + int k) [0..<n])"
    by simp
  also have "\<dots> = map iso_of_day [utc_day s..utc_day e - 1]"
    by (simp only: e upto_as_map)
  finally show ?thesis .
qed

text \<open>The month of March 2024, given by two dates, yields 31 entries.\<close>

lemma date_grid_march_2024:
  "length (date_grid (days_from_civil 2024 3 1 * msPerDay) (days_from_civil 2024 3 31 * msPerDay))
     = 31"
  unfolding length_date_grid by (simp add: days_from_civil_def msPerDay_def)

text \<open>
  C4. \<^verbatim>\<open>GET /api/calendar\<close> with \<^verbatim>\<open>startDate=2024-03-01T12:00:00Z\<close> and
  \<^verbatim>\<open>endDate=2024-03-02T06:00:00Z\<close>, on a store with one company and one event of that
  company at 2024-03-02T03:00:00Z. The start is before the end and the range runs from
  1 March to 2 March, as the answer's own \<^verbatim>\<open>dateRange\<close> says; the event is fetched and
  stands in the company's row under the key \<^verbatim>\<open>2024-03-02\<close>; the date axis has the one
  entry \<^verbatim>\<open>2024-03-01\<close>.
\<close>

theorem date_axis_misses_end_day:
  "map_option
     (\<lambda>out. (dateGrid out, dateRange out, totalEvents (cal_statistics out),
             map (\<lambda>row. map_option length (line_events row ''2024-03-02'')) (calendarData out)))
     (reply_body
       (get_calendar 0 0
         (empty_store
            \<lparr>events := [\<lparr>eventID = ''e1'', eventName = ''Roadshow'', tickerSymbol = Some ''ACME'',
                          gicsSector = None, gicsSubSector = None, eventType = ''ROADSHOW'',
                          location = None, hostCompany = None, companyID = None,
                          startDate = 1709348400000, endDate = None, description = None\<rparr>],
             gics_companies := [\<lparr>co_companyID = ''c1'', co_tickerSymbol = ''ACME'',
                                  companyName = ''Acme'', co_gicsSector = ''Energy'',
                                  co_gicsSubCategory = ''Oil''\<rparr>]\<rparr>)
         ''u1''
         \<lparr>q_startDate = Some (TimeValue 1709294400000),
          q_endDate = Some (TimeValue 1709359200000),
          q_gicsSector = None, q_eventType = None, q_followedCompanies = None\<rparr>))
   = Some ([''2024-03-01''], (''2024-03-01'', ''2024-03-02''), 1, [Some 1])"
proof -
  have iso1: "toISODate 1709294400000 = ''2024-03-01''"
    by code_simp
  have iso2: "toISODate 1709359200000 = ''2024-03-02''"
    by code_simp
  have iso3: "toISODate 1709348400000 = ''2024-03-02''"
    by code_simp
  have grid: "date_grid 1709294400000 1709359200000 = [''2024-03-01'']"
    by code_simp
  show ?thesis
    by (simp add: get_calendar_def calendar_start_def calendar_end_def calendar_events_def
          calendar_row_def embed_event_def empty_store_def falsy_def grid iso1 iso2 iso3
          Let_def)
qed

section \<open>The rows of the calendar grid\<close>

lemma get_calendar_reply:
  assumes "calendar_start tz now q = TimeValue s" and "calendar_end tz now q = TimeValue e"
  shows "\<exists>out. get_calendar tz now db userID q = Reply 200 out \<and>
           calendarData out = map (calendar_row userID (calendar_events db q s e))
                                  (sort_key companyName (gics_companies db)) \<and>
           dateGrid out = date_grid s e"
  using assms by (simp add: get_calendar_def Let_def)

lemma company_of_calendar_row: "company (calendar_row userID evs c) = company_info_of c"
  by (simp add: calendar_row_def Let_def)

lemma date_grid_populated: "s \<le> e \<Longrightarrow> toISODate s \<in> set (date_grid s e)"
  by (subst date_grid.simps) simp

text \<open>
  C5. Whenever the date range of \<^verbatim>\<open>GET /api/calendar\<close> is valid, the handler answers 200
  and the grid has one row for each company of the catalog and no other, in the order
  of the company names; this column of companies is the same for every set of events
  and RSVPs in the store, so a company has its row whether it has events in range or
  not. The date axis is that of the range; with an empty catalog the grid is empty and
  the axis of a range whose start is not after its end still holds the start date.
\<close>

theorem calendar_rows_follow_catalog:
  assumes "calendar_start tz now q = TimeValue s" and "calendar_end tz now q = TimeValue e"
  shows "\<exists>out. get_calendar tz now db userID q = Reply 200 out \<and>
           map company (calendarData out)
             = map company_info_of (sort_key companyName (gics_companies db)) \<and>
           length (calendarData out) = length (gics_companies db) \<and>
           sorted (map (\<lambda>row. ci_companyName (company row)) (calendarData out)) \<and>
           (\<forall>db' out'. gics_companies db' = gics_companies db \<and>
                get_calendar tz now db' userID q = Reply 200 out' \<longrightarrow>
                map company (calendarData out') = map company (calendarData out)) \<and>
           dateGrid out = date_grid s e \<and>
           (gics_companies db = [] \<longrightarrow>
                calendarData out = [] \<and> (s \<le> e \<longrightarrow> toISODate s \<in> set (dateGrid out)))"
proof -
  from get_calendar_reply[OF assms, of db userID] obtain out
    where out: "get_calendar tz now db userID q = Reply 200 out"
      and rows: "calendarData out = map (calendar_row userID (calendar_events db q s e))
                                       (sort_key companyName (gics_companies db))"
      and axis: "dateGrid out = date_grid s e"
    by blast
  have col: "map company (calendarData out)
      = map company_info_of (sort_key companyName (gics_companies db))"
    by (simp add: rows company_of_calendar_row)
  have len: "length (calendarData out) = length (gics_companies db)"
    by (simp add: rows)
  have names: "map (\<lambda>row. ci_companyName (company row)) (calendarData out)
      = map companyName (sort_key companyName (gics_companies db))"
    by (simp add: rows company_of_calendar_row company_info_of_def)
  have srt: "sorted (map (\<lambda>row. ci_companyName (company row)) (calendarData out))"
    unfolding names by (rule sorted_sort_key)
  have indep: "map company (calendarData out') = map company (calendarData out)"
    if "gics_companies db' = gics_companies db"
      and "get_calendar tz now db' userID q = Reply 200 out'" for db' out'
  proof -
    from get_calendar_reply[OF assms, of db' userID] that(2)
    have "calendarData out' = map (calendar_row userID (calendar_events db' q s e))
                                  (sort_key companyName (gics_companies db'))"
      by auto
    then show ?thesis
      by (simp add: col that(1) company_of_calendar_row)
  qed
  have empty: "calendarData out = [] \<and> (s \<le> e \<longrightarrow> toISODate s \<in> set (dateGrid out))"
    if "gics_companies db = []"
    using that by (simp add: rows axis date_grid_populated)
  from out col len srt indep axis empty show ?thesis
    by blast
qed

theorem calendar_rows_follow_catalog_witness:
  "calendar_start 0 0
      \<lparr>q_startDate = Some (TimeValue 1709251200000), q_endDate = Some (TimeValue 1709424000000),
       q_gicsSector = None, q_eventType = None, q_followedCompanies = None\<rparr>
     = TimeValue 1709251200000 \<and>
   calendar_end 0 0
      \<lparr>q_startDate = Some (TimeValue 1709251200000), q_endDate = Some (TimeValue 1709424000000),
       q_gicsSector = None, q_eventType = None, q_followedCompanies = None\<rparr>
     = TimeValue 1709424000000 \<and>
   (\<exists>out. get_calendar 0 0
        (empty_store\<lparr>gics_companies :=
           [\<lparr>co_companyID = ''c1'', co_tickerSymbol = ''ZETA'', companyName = ''Zeta'',
             co_gicsSector = ''Energy'', co_gicsSubCategory = ''Oil''\<rparr>,
            \<lparr>co_companyID = ''c2'', co_tickerSymbol = ''ACME'', companyName = ''Acme'',
             co_gicsSector = ''Energy'', co_gicsSubCategory = ''Gas''\<rparr>]\<rparr>) ''u1''
        \<lparr>q_startDate = Some (TimeValue 1709251200000), q_endDate = Some (TimeValue 1709424000000),
         q_gicsSector = None, q_eventType = None, q_followedCompanies = None\<rparr> = Reply 200 out \<and>
      map (\<lambda>row. ci_companyName (company row)) (calendarData out) = [''Acme'', ''Zeta''] \<and>
      length (calendarData out) = 2 \<and>
      dateGrid out = [''2024-03-01'', ''2024-03-02'', ''2024-03-03'']) \<and>
   (\<exists>out. get_calendar 0 0 empty_store ''u1''
        \<lparr>q_startDate = Some (TimeValue 1709251200000), q_endDate = Some (TimeValue 1709424000000),
         q_gicsSector = None, q_eventType = None, q_followedCompanies = None\<rparr> = Reply 200 out \<and>
      calendarData out = [] \<and> toISODate 1709251200000 \<in> set (dateGrid out))"
proof -
  let ?q = "\<lparr>q_startDate = Some (TimeValue 1709251200000),
             q_endDate = Some (TimeValue 1709424000000),
             q_gicsSector = None, q_eventType = None, q_followedCompanies = None\<rparr>"
  let ?db = "empty_store\<lparr>gics_companies :=
           [\<lparr>co_companyID = ''c1'', co_tickerSymbol = ''ZETA'', companyName = ''Zeta'',
             co_gicsSector = ''Energy'', co_gicsSubCategory = ''Oil''\<rparr>,
            \<lparr>co_companyID = ''c2'', co_tickerSymbol = ''ACME'', companyName = ''Acme'',
             co_gicsSector = ''Energy'', co_gicsSubCategory = ''Gas''\<rparr>]\<rparr>"
  have s: "calendar_start 0 0 ?q = TimeValue 1709251200000"
    by (simp add: calendar_start_def)
  have e: "calendar_end 0 0 ?q = TimeValue 1709424000000"
    by (simp add: calendar_end_def)
  have order: "''Acme'' \<le> ''Zeta''" "\<not> ''Zeta'' \<le> ''Acme''"
    by (simp_all add: less_eq_char_def)
  have sorted_names: "map company_info_of (sort_key companyName (gics_companies ?db))
      = [\<lparr>ci_tickerSymbol = ''ACME'', ci_companyName = ''Acme'', ci_gicsSector = ''Energy'',
          ci_gicsSubCategory = ''Gas''\<rparr>,
         \<lparr>ci_tickerSymbol = ''ZETA'', ci_companyName = ''Zeta'', ci_gicsSector = ''Energy'',
          ci_gicsSubCategory = ''Oil''\<rparr>]"
    using order by (simp add: company_info_of_def)
  have grid: "date_grid 1709251200000 1709424000000
      = [''2024-03-01'', ''2024-03-02'', ''2024-03-03'']"
    by code_simp
  from calendar_rows_follow_catalog[OF s e, of ?db "''u1''"] obtain out
    where out: "get_calendar 0 0 ?db ''u1'' ?q = Reply 200 out"
      and col: "map company (calendarData out)
                  = map company_info_of (sort_key companyName (gics_companies ?db))"
      and len: "length (calendarData out) = length (gics_companies ?db)"
      and axis: "dateGrid out = date_grid 1709251200000 1709424000000"
    by blast
  have "map (\<lambda>row. ci_companyName (company row)) (calendarData out)
      = map ci_companyName (map company (calendarData out))"
    by simp
  also have "\<dots> = [''Acme'', ''Zeta'']"
    by (simp only: col sorted_names) simp
  finally have names: "map (\<lambda>row. ci_companyName (company row)) (calendarData out)
      = [''Acme'', ''Zeta'']" .
  from len have len2: "length (calendarData out) = 2" by simp
  have a: "\<exists>out. get_calendar 0 0 ?db ''u1'' ?q = Reply 200 out \<and>
      map (\<lambda>row. ci_companyName (company row)) (calendarData out) = [''Acme'', ''Zeta''] \<and>
      length (calendarData out) = 2 \<and>
      dateGrid out = [''2024-03-01'', ''2024-03-02'', ''2024-03-03'']"
    using out names len2 axis grid by auto
  have no_company: "gics_companies empty_store = []"
    by (simp add: empty_store_def)
  from calendar_rows_follow_catalog[OF s e, of empty_store "''u1''"] no_company
  have b: "\<exists>out. get_calendar 0 0 empty_store ''u1'' ?q = Reply 200 out \<and>
      calendarData out = [] \<and> toISODate 1709251200000 \<in> set (dateGrid out)"
    by auto
  from s e a b show ?thesis by blast
qed

section \<open>The week view\<close>

lemma local_day_add_days: "local_day tz (add_days t n) = local_day tz t + n"
  by (simp add: local_day_def add_days_def msPerDay_def add.commute add.left_commute)

lemma getDay_range: "0 \<le> getDay tz t \<and> getDay tz t < 7"
  by (simp add: getDay_def)

text \<open>The first day of the returned week is always a Monday.\<close>

lemma getDay_startOfWeek: "getDay tz (startOfWeek tz t) = 1"
proof -
  have "(local_day tz t + 4 - (local_day tz t + 4) mod 7 + 1) mod 7 = 1"
    by presburger
  then show ?thesis
    by (simp add: getDay_def startOfWeek_def local_day_add_days algebra_simps)
qed

lemma local_day_end_of_day: "local_day tz (end_of_day tz t) = local_day tz t"
  by (simp add: local_day_def end_of_day_def msPerDay_def)

lemma local_day_endOfWeek: "local_day tz (endOfWeek tz t) = local_day tz (startOfWeek tz t) + 6"
  by (simp add: endOfWeek_def local_day_end_of_day local_day_add_days)

text \<open>
  For an anchor from Monday to Saturday the week holds the day of the anchor; for an
  anchor on a Sunday the week starts on the day after it.
\<close>

lemma week_holds_weekday_anchor:
  assumes "getDay tz t \<noteq> 0"
  shows "local_day tz (startOfWeek tz t) \<le> local_day tz t \<and>
         local_day tz t \<le> local_day tz (endOfWeek tz t)"
  using assms getDay_range[of tz t]
  by (simp add: local_day_endOfWeek) (simp add: startOfWeek_def local_day_add_days)

lemma week_after_sunday_anchor:
  assumes "getDay tz t = 0"
  shows "local_day tz (startOfWeek tz t) = local_day tz t + 1"
  using assms by (simp add: startOfWeek_def local_day_add_days)

text \<open>
  C3. \<^verbatim>\<open>GET /api/calendar/week?date=2024-03-10\<close> (a Sunday) for a user who has an RSVP
  to an event on that Sunday at 10:00 UTC, on a server in UTC. The answer has seven
  buckets, Monday to Sunday, but they are the days 11 to 17 March: the week range does
  not hold 10 March, and the event of the anchor day is in no bucket.
\<close>

theorem week_of_sunday_anchor:
  "map_option
     (\<lambda>out. (weekRange out,
             map (\<lambda>d. (wd_date d, wd_dayName d, map (\<lambda>ev. eventID (fe_row ev)) (wd_events d)))
                 (weekData out)))
     (reply_body
       (get_week 0 0
         (empty_store
            \<lparr>events := [\<lparr>eventID = ''e1'', eventName = ''Analyst day'', tickerSymbol = None,
                          gicsSector = None, gicsSubSector = None, eventType = ''ANALYST_DAY'',
                          location = None, hostCompany = None, companyID = None,
                          startDate = 1710064800000, endDate = None, description = None\<rparr>],
             rsvps := [\<lparr>rsvpID = ''r1'', rsvp_userID = ''u1'', rsvp_eventID = ''e1'',
                         rsvp_status = ''ACCEPTED'', rsvp_createdAt = 10\<rparr>]\<rparr>)
         ''u1'' (Some (TimeValue 1710028800000))))
   = Some ((''2024-03-11'', ''2024-03-17''),
           [(''2024-03-11'', ''Monday'', []), (''2024-03-12'', ''Tuesday'', []),
            (''2024-03-13'', ''Wednesday'', []), (''2024-03-14'', ''Thursday'', []),
            (''2024-03-15'', ''Friday'', []), (''2024-03-16'', ''Saturday'', []),
            (''2024-03-17'', ''Sunday'', [])])"
  by code_simp

text \<open>
  The same store and user with the anchor 2024-03-06, a Wednesday: the week is 4 to 10
  March and the event stands in the bucket of Sunday.
\<close>

lemma week_of_wednesday_anchor:
  "map_option
     (\<lambda>out. (weekRange out,
             map (\<lambda>d. (wd_date d, wd_dayName d, map (\<lambda>ev. eventID (fe_row ev)) (wd_events d)))
                 (weekData out)))
     (reply_body
       (get_week 0 0
         (empty_store
            \<lparr>events := [\<lparr>eventID = ''e1'', eventName = ''Analyst day'', tickerSymbol = None,
                          gicsSector = None, gicsSubSector = None, eventType = ''ANALYST_DAY'',
                          location = None, hostCompany = None, companyID = None,
                          startDate = 1710064800000, endDate = None, description = None\<rparr>],
             rsvps := [\<lparr>rsvpID = ''r1'', rsvp_userID = ''u1'', rsvp_eventID = ''e1'',
                         rsvp_status = ''ACCEPTED'', rsvp_createdAt = 10\<rparr>]\<rparr>)
         ''u1'' (Some (TimeValue 1709683200000))))
   = Some ((''2024-03-04'', ''2024-03-10''),
           [(''2024-03-04'', ''Monday'', []), (''2024-03-05'', ''Tuesday'', []),
            (''2024-03-06'', ''Wednesday'', []), (''2024-03-07'', ''Thursday'', []),
            (''2024-03-08'', ''Friday'', []), (''2024-03-09'', ''Saturday'', []),
            (''2024-03-10'', ''Sunday'', [''e1''])])"
  by code_simp

section \<open>Outside the invariant\<close>

text \<open>
  The handlers do not reach a store with two RSVPs for one pair by themselves; such a
  store takes two requests that both pass the lookup before either writes. In it
  \<^verbatim>\<open>.single()\<close> fails on the pair: the deletion answers 404 and removes nothing, and the
  upsert takes the insert path and adds a third row.
\<close>

lemma delete_rsvp_on_duplicates:
  "delete_rsvp
     (empty_store\<lparr>rsvps :=
        [\<lparr>rsvpID = ''r1'', rsvp_userID = ''u1'', rsvp_eventID = ''e1'', rsvp_status = ''ACCEPTED'',
          rsvp_createdAt = 10\<rparr>,
         \<lparr>rsvpID = ''r2'', rsvp_userID = ''u1'', rsvp_eventID = ''e1'', rsvp_status = ''DECLINED'',
          rsvp_createdAt = 10\<rparr>]\<rparr>) ''u1'' ''e1''
   = (Fail 404 ''RSVP not found'',
      empty_store\<lparr>rsvps :=
        [\<lparr>rsvpID = ''r1'', rsvp_userID = ''u1'', rsvp_eventID = ''e1'', rsvp_status = ''ACCEPTED'',
          rsvp_createdAt = 10\<rparr>,
         \<lparr>rsvpID = ''r2'', rsvp_userID = ''u1'', rsvp_eventID = ''e1'', rsvp_status = ''DECLINED'',
          rsvp_createdAt = 10\<rparr>]\<rparr>)"
  by (simp add: delete_rsvp_def find_rsvp_def rsvp_matches_def)

lemma post_rsvp_on_duplicates:
  assumes "find_event db evID \<noteq> None" and "evID \<noteq> []" and "s \<in> set validStatuses"
    and "length (filter (rsvp_matches userID evID) (rsvps db)) > 1"
  shows "\<exists>r. post_rsvp newID now db userID \<lparr>body_eventID = Some evID, body_status = Some s\<rparr>
           = (Reply 200 (''RSVP created successfully'', r), db\<lparr>rsvps := rsvps db @ [r]\<rparr>)"
proof -
  from assms(4) have "find_rsvp db userID evID = None"
    by (simp add: find_rsvp_def single_eq_None)
  with assms(1,2) valid_status_not_empty[OF assms(3)] assms(3) show ?thesis
    by (auto simp: post_rsvp_def falsy_def Let_def split: option.splits)
qed

end
